theory Spec2Isabelle
  imports Main "HOL-Library.AList" "HOL-Library.Sublist"
begin

section \<open>The project generator of the HTTP storage package\<close>

text \<open>
  This theory embeds \<^verbatim>\<open>gamemeanmachine/http_storage/generators/project.py\<close>: the
  five functions that write one fixed artifact each, the function that copies the
  application template, and \<^verbatim>\<open>generate_project\<close> which sequences them.

  The Python code works by side effect on the file system: the state is written out and
  passed along here. Every call returns the exception it raised, if any, together with the
  file system it left behind, so that what remains on disk after a failure can be stated.
\<close>

subsection \<open>Strings and decimal numbers\<close>

text \<open>
  A Python \<^verbatim>\<open>str\<close> is a \<^typ>\<open>string\<close>, and a file holds the characters written to
  it: the fixed text of the artifacts is ASCII, and no encoding or newline translation is
  modelled. An \<^verbatim>\<open>int\<close> placed in an f-string is printed in decimal, with a minus sign
  when negative.
\<close>

definition digit_char :: "nat \<Rightarrow> char" where
  "digit_char d = ''0123456789'' ! d"

function str_nat :: "nat \<Rightarrow> string" where
  "str_nat n = (if n < 10 then [digit_char n] else str_nat (n div 10) @ [digit_char (n mod 10)])"
  by pat_completeness auto
termination
  by (relation "measure id") auto

declare str_nat.simps [simp del]

definition str_int :: "int \<Rightarrow> string" where
  "str_int i = (if i < 0 then ''-'' @ str_nat (nat (- i)) else str_nat (nat i))"

text \<open>Splitting at a separator character: \<^verbatim>\<open>s.split(sep)\<close>.\<close>

fun split_sep :: "char \<Rightarrow> string \<Rightarrow> string list" where
  "split_sep d [] = [[]]"
| "split_sep d (x # xs) =
     (if x = d then [] # split_sep d xs
      else (case split_sep d xs of [] \<Rightarrow> [[x]] | w # ws \<Rightarrow> (x # w) # ws))"

definition lines_of :: "string \<Rightarrow> string list" where
  "lines_of s = split_sep CHR ''\<newline>'' s"

subsection \<open>Path names (posixpath)\<close>

definition is_abs :: "string \<Rightarrow> bool" where
  "is_abs p = (case p of [] \<Rightarrow> False | c # _ \<Rightarrow> c = CHR ''/'')"

text \<open>
  \<^verbatim>\<open>os.path.join\<close>: an absolute component discards what came before it; otherwise a
  separator is inserted unless the path so far is empty or already ends with one.
\<close>

definition join1 :: "string \<Rightarrow> string \<Rightarrow> string" where
  "join1 path b =
     (if is_abs b then b
      else if path = [] \<or> last path = CHR ''/'' then path @ b
      else path @ ''/'' @ b)"

definition os_path_join :: "string \<Rightarrow> string list \<Rightarrow> string" where
  "os_path_join a ps = foldl join1 a ps"

text \<open>
  \<^verbatim>\<open>os.path.dirname\<close> and \<^verbatim>\<open>os.path.basename\<close>: the path is cut after its last
  separator; trailing separators of the head are stripped unless it consists of separators
  only.
\<close>

definition path_head :: "string \<Rightarrow> string" where
  "path_head p = rev (dropWhile (\<lambda>c. c \<noteq> CHR ''/'') (rev p))"

definition os_path_dirname :: "string \<Rightarrow> string" where
  "os_path_dirname p =
     (let head = path_head p in
      if head \<noteq> [] \<and> \<not> list_all (\<lambda>c. c = CHR ''/'') head
      then rev (dropWhile (\<lambda>c. c = CHR ''/'') (rev head))
      else head)"

definition os_path_basename :: "string \<Rightarrow> string" where
  "os_path_basename p = rev (takeWhile (\<lambda>c. c \<noteq> CHR ''/'') (rev p))"

subsection \<open>The file system\<close>

text \<open>
  A node is a regular file with its bytes, or a directory with its entries in the order of
  their creation. Permissions, quotas and devices are not part of the model: a write fails
  only for the shape of the tree.
\<close>

datatype node = File string | Dir "(string \<times> node) list"

datatype error =
    FileNotFoundError
  | FileExistsError
  | NotADirectoryError
  | IsADirectoryError
  | SameFileError
  | OSError string

record os_state =
  cwd :: "string list"
  root :: node

type_synonym step = "os_state \<Rightarrow> error option \<times> os_state"

fun stat_node :: "node \<Rightarrow> string list \<Rightarrow> error + node" where
  "stat_node n [] = Inr n"
| "stat_node (File b) (c # cs) = Inl NotADirectoryError"
| "stat_node (Dir es) (c # cs) =
     (case map_of es c of None \<Rightarrow> Inl FileNotFoundError | Some m \<Rightarrow> stat_node m cs)"

text \<open>
  \<open>put p new n\<close> replaces the node at \<open>p\<close> below \<open>n\<close>, or adds it as the last entry of its
  parent directory when the parent exists and has no such entry.
\<close>

fun put :: "string list \<Rightarrow> node \<Rightarrow> node \<Rightarrow> node" where
  "put [] new n = new"
| "put (c # cs) new (File b) = File b"
| "put (c # cs) new (Dir es) =
     (case map_of es c of
        None \<Rightarrow> if cs = [] then Dir (es @ [(c, new)]) else Dir es
      | Some m \<Rightarrow> Dir (AList.update c (put cs new m) es))"

text \<open>
  A path name denotes a list of directory entries, counted from the root; a relative name
  starts at the working directory. A plain component is appended. At an empty component,
  at \<^verbatim>\<open>.\<close> and at \<^verbatim>\<open>..\<close> the path so far must be an existing directory, and
  \<^verbatim>\<open>..\<close> then steps to its parent. The empty name denotes nothing. The model has no
  symbolic links.
\<close>

fun walk :: "node \<Rightarrow> string list \<Rightarrow> string list \<Rightarrow> error + string list" where
  "walk r acc [] = Inr acc"
| "walk r acc (c # cs) =
     (if c = [] \<or> c = ''.'' \<or> c = ''..'' then
        (case stat_node r acc of
           Inl e \<Rightarrow> Inl e
         | Inr (File b) \<Rightarrow> Inl NotADirectoryError
         | Inr (Dir es) \<Rightarrow> walk r (if c = ''..'' then butlast acc else acc) cs)
      else walk r (acc @ [c]) cs)"

definition resolve :: "node \<Rightarrow> string list \<Rightarrow> string \<Rightarrow> error + string list" where
  "resolve r wd p =
     (if p = [] then Inl FileNotFoundError
      else walk r (if is_abs p then [] else wd) (split_sep CHR ''/'' p))"

text \<open>
  \<^verbatim>\<open>os.makedirs(path, exist_ok=True)\<close> on the tree: missing directories along the path
  are created; a regular file in the way is an error, \<^verbatim>\<open>FileExistsError\<close> at the last
  component and \<^verbatim>\<open>NotADirectoryError\<close> before it.
\<close>

fun mkdirs :: "string list \<Rightarrow> node \<Rightarrow> error + node" where
  "mkdirs [] (Dir es) = Inr (Dir es)"
| "mkdirs [] (File b) = Inl FileExistsError"
| "mkdirs (c # cs) (File b) = Inl NotADirectoryError"
| "mkdirs (c # cs) (Dir es) =
     (case map_of es c of
        None \<Rightarrow>
          (case mkdirs cs (Dir []) of
             Inl e \<Rightarrow> Inl e
           | Inr m \<Rightarrow> Inr (Dir (es @ [(c, m)])))
      | Some m \<Rightarrow>
          (case mkdirs cs m of
             Inl e \<Rightarrow> Inl e
           | Inr m' \<Rightarrow> Inr (Dir (AList.update c m' es))))"

text \<open>
  \<^verbatim>\<open>os.makedirs\<close> works its way along the name: a \<^verbatim>\<open>.\<close> or \<^verbatim>\<open>..\<close> after a regular
  file is an error, the directory that a \<^verbatim>\<open>..\<close> leaves is created first when it is
  missing, and what has been created stays when a later part fails.
\<close>

fun mk_walk :: "string list \<Rightarrow> string list \<Rightarrow> node \<Rightarrow> error option \<times> node" where
  "mk_walk acc [] r =
     (case mkdirs acc r of Inl e \<Rightarrow> (Some e, r) | Inr r' \<Rightarrow> (None, r'))"
| "mk_walk acc (c # cs) r =
     (if c = [] then mk_walk acc cs r
      else if c = ''.'' \<or> c = ''..'' then
        (case stat_node r acc of
           Inr (File b) \<Rightarrow> (Some NotADirectoryError, r)
         | _ \<Rightarrow>
             if c = ''.'' then mk_walk acc cs r
             else
               (case mkdirs acc r of
                  Inl e \<Rightarrow> (Some e, r)
                | Inr r' \<Rightarrow> mk_walk (butlast acc) cs r'))
      else mk_walk (acc @ [c]) cs r)"

definition os_makedirs :: "string \<Rightarrow> step" where
  "os_makedirs path s =
     (if path = [] then (Some FileNotFoundError, s)
      else
        (case mk_walk (if is_abs path then [] else cwd s) (split_sep CHR ''/'' path) (root s) of
           (e, r) \<Rightarrow> (e, s\<lparr>root := r\<rparr>)))"

definition os_stat :: "string \<Rightarrow> os_state \<Rightarrow> error + node" where
  "os_stat path s =
     (case resolve (root s) (cwd s) path of
        Inl e \<Rightarrow> Inl e
      | Inr p \<Rightarrow> stat_node (root s) p)"

definition os_listdir :: "string \<Rightarrow> os_state \<Rightarrow> error + string list" where
  "os_listdir path s =
     (case os_stat path s of
        Inl e \<Rightarrow> Inl e
      | Inr (File b) \<Rightarrow> Inl NotADirectoryError
      | Inr (Dir es) \<Rightarrow> Inr (map fst es))"

definition os_path_isdir :: "string \<Rightarrow> os_state \<Rightarrow> bool" where
  "os_path_isdir path s = (case os_stat path s of Inr (Dir es) \<Rightarrow> True | _ \<Rightarrow> False)"

text \<open>Reading a whole file: \<^verbatim>\<open>open(path, "rb").read()\<close>.\<close>

definition read_file :: "string \<Rightarrow> os_state \<Rightarrow> error + string" where
  "read_file path s =
     (case os_stat path s of
        Inl e \<Rightarrow> Inl e
      | Inr (Dir es) \<Rightarrow> Inl IsADirectoryError
      | Inr (File b) \<Rightarrow> Inr b)"

text \<open>
  \<^verbatim>\<open>with open(path, "w") as f: f.write(contents)\<close>: the file is created or truncated
  in an existing directory, and holds exactly \<open>contents\<close> afterwards.
\<close>

definition write_file :: "string \<Rightarrow> string \<Rightarrow> step" where
  "write_file path contents s =
     (case resolve (root s) (cwd s) path of
        Inl e \<Rightarrow> (Some e, s)
      | Inr p \<Rightarrow>
          if p = [] then (Some IsADirectoryError, s)
          else
            (case stat_node (root s) (butlast p) of
               Inl e \<Rightarrow> (Some e, s)
             | Inr (File b) \<Rightarrow> (Some NotADirectoryError, s)
             | Inr (Dir es) \<Rightarrow>
                 (case map_of es (last p) of
                    Some (Dir ds) \<Rightarrow> (Some IsADirectoryError, s)
                  | _ \<Rightarrow> (None, s\<lparr>root := put p (File contents) (root s)\<rparr>))))"

text \<open>
  \<^verbatim>\<open>shutil.copy(src, dst)\<close>: a destination that is a directory receives the file under
  the source's base name; copying a file onto itself is refused; the source is opened
  before the destination.
\<close>

definition samefile :: "string \<Rightarrow> string \<Rightarrow> os_state \<Rightarrow> bool" where
  "samefile a b s =
     (case (os_stat a s, os_stat b s) of
        (Inr m, Inr n) \<Rightarrow> resolve (root s) (cwd s) a = resolve (root s) (cwd s) b
      | _ \<Rightarrow> False)"

definition shutil_copy :: "string \<Rightarrow> string \<Rightarrow> step" where
  "shutil_copy src dst s =
     (let dst' = (if os_path_isdir dst s then os_path_join dst [os_path_basename src] else dst) in
      if samefile src dst' s then (Some SameFileError, s)
      else
        (case read_file src s of
           Inl e \<Rightarrow> (Some e, s)
         | Inr b \<Rightarrow> write_file dst' b s))"

text \<open>
  Statements in sequence: the first exception ends the run, and the file system stays as
  the statements before it left it.
\<close>

fun run_all :: "step list \<Rightarrow> step" where
  "run_all [] s = (None, s)"
| "run_all (f # fs) s =
     (case f s of
        (None, s') \<Rightarrow> run_all fs s'
      | (Some e, s') \<Rightarrow> (Some e, s'))"

subsection \<open>The artifacts\<close>

definition docker_compose_contents :: "int \<Rightarrow> int \<Rightarrow> string" where
  "docker_compose_contents mongodb_port http_port =
     ''version: '3.7'\<newline>'' @
     ''services:\<newline>'' @
     ''  mongodb:\<newline>'' @
     ''    image: mongo:6.0\<newline>'' @
     ''    env_file: .env\<newline>'' @
     ''    ports:\<newline>'' @
     ''      - '' @ str_int mongodb_port @ '':27017\<newline>'' @
     ''    expose:\<newline>'' @
     ''      - '' @ str_int mongodb_port @ ''\<newline>'' @
     ''    volumes:\<newline>'' @
     ''      - .tmp/mongo:/data/db\<newline>'' @
     ''  http:\<newline>'' @
     ''    build:\<newline>'' @
     ''      context: ./server\<newline>'' @
     ''    env_file: .env\<newline>'' @
     ''    ports:\<newline>'' @
     ''      - '' @ str_int http_port @ '':8080\<newline>'' @
     ''    expose:\<newline>'' @
     ''      - '' @ str_int http_port @ ''\<newline>''"

definition make_docker_compose_file :: "string \<Rightarrow> int \<Rightarrow> int \<Rightarrow> step" where
  "make_docker_compose_file project_path mongodb_port http_port =
     write_file (os_path_join project_path [''docker-compose.yml''])
       (docker_compose_contents mongodb_port http_port)"

definition env_contents :: "int \<Rightarrow> string \<Rightarrow> string \<Rightarrow> string \<Rightarrow> string" where
  "env_contents mongodb_port mongodb_user mongodb_pass server_api_key =
     ''MONGO_INITDB_ROOT_USERNAME='' @ mongodb_user @ ''\<newline>'' @
     ''MONGO_INITDB_ROOT_PASSWORD='' @ mongodb_pass @ ''\<newline>'' @
     ''DB_HOST=mongodb\<newline>'' @
     ''DB_PORT='' @ str_int mongodb_port @ ''\<newline>'' @
     ''DB_USER='' @ mongodb_user @ ''\<newline>'' @
     ''DB_PASS='' @ mongodb_pass @ ''\<newline>'' @
     ''SERVER_API_KEY='' @ server_api_key @ ''\<newline>'' @
     ''WAITRESS_PORT=8080\<newline>'' @
     ''MODULE_NAME=app\<newline>'' @
     ''VARIABLE_NAME=app\<newline>''"

definition make_env_file :: "string \<Rightarrow> int \<Rightarrow> string \<Rightarrow> string \<Rightarrow> string \<Rightarrow> step" where
  "make_env_file project_path mongodb_port mongodb_user mongodb_pass server_api_key =
     write_file (os_path_join project_path [''.env''])
       (env_contents mongodb_port mongodb_user mongodb_pass server_api_key)"

definition requirements_contents :: string where
  "requirements_contents =
     ''# Place any requirements you need in this file.\<newline>'' @
     ''alephvault-http-mongodb-storage==0.0.4\<newline>''"

definition make_requirements_file :: "string \<Rightarrow> step" where
  "make_requirements_file project_path =
     write_file (os_path_join project_path [''server'', ''requirements.txt''])
       requirements_contents"

definition dockerfile_contents :: string where
  "dockerfile_contents =
     ''FROM tecktron/python-waitress:python-3.7\<newline>'' @
     ''\<newline>'' @
     ''COPY ./ /app\<newline>'' @
     ''RUN pip install -r /app/requirements.txt\<newline>'' @
     ''# The /app/app.py file will be the entrypoint for waitress serve.\<newline>''"

definition make_dockerfile :: "string \<Rightarrow> step" where
  "make_dockerfile project_path =
     write_file (os_path_join project_path [''server'', ''Dockerfile'']) dockerfile_contents"

definition make_init_file :: "string \<Rightarrow> step" where
  "make_init_file project_path =
     write_file (os_path_join project_path [''server'', ''__init__.py'']) []"

text \<open>
  The template: the two built-in names are looked up beside the module itself, whose file
  name \<^verbatim>\<open>__file__\<close> is the parameter \<open>module_file\<close>; any other name is a path.
\<close>

definition template_path :: "string \<Rightarrow> string \<Rightarrow> string" where
  "template_path module_file template =
     (if template = ''default:simple''
      then os_path_join (os_path_dirname module_file) [''simple-application-template.py'']
      else if template = ''default:multiple''
      then os_path_join (os_path_dirname module_file) [''multichar-application-template.py'']
      else template)"

definition make_app_file :: "string \<Rightarrow> string \<Rightarrow> string \<Rightarrow> step" where
  "make_app_file module_file project_path template =
     shutil_copy (template_path module_file template)
       (os_path_join project_path [''server'', ''app.py''])"

subsection \<open>Generating a project\<close>

definition require_empty :: "string \<Rightarrow> step" where
  "require_empty full_path s =
     (case os_listdir full_path s of
        Inl e \<Rightarrow> (Some e, s)
      | Inr names \<Rightarrow>
          if length names \<noteq> 0 then (Some (OSError ''Directory not empty''), s)
          else (None, s))"

text \<open>
  The body of \<^verbatim>\<open>generate_project\<close>, statement by statement; the keyword parameters
  have the defaults below.
\<close>

definition project_steps ::
  "string \<Rightarrow> string \<Rightarrow> string \<Rightarrow> int \<Rightarrow> int \<Rightarrow> string \<Rightarrow> string \<Rightarrow> string \<Rightarrow> step list" where
  "project_steps module_file full_path template
       mongodb_port http_port mongodb_user mongodb_pass server_api_key =
     [os_makedirs full_path,
      require_empty full_path,
      os_makedirs (os_path_join full_path [''server'']),
      make_docker_compose_file full_path mongodb_port http_port,
      make_env_file full_path mongodb_port mongodb_user mongodb_pass server_api_key,
      make_dockerfile full_path,
      make_requirements_file full_path,
      make_init_file full_path,
      make_app_file module_file full_path template]"

definition generate_project ::
  "string \<Rightarrow> string \<Rightarrow> string \<Rightarrow> int \<Rightarrow> int \<Rightarrow> string \<Rightarrow> string \<Rightarrow> string \<Rightarrow> step" where
  "generate_project module_file full_path template
       mongodb_port http_port mongodb_user mongodb_pass server_api_key =
     run_all (project_steps module_file full_path template
       mongodb_port http_port mongodb_user mongodb_pass server_api_key)"

definition default_mongodb_port :: int where
  "default_mongodb_port = 27017"

definition default_http_port :: int where
  "default_http_port = 8080"

definition default_mongodb_user :: string where
  "default_mongodb_user = ''admin''"

definition default_mongodb_pass :: string where
  "default_mongodb_pass = ''p455w0rd''"

definition default_server_api_key :: string where
  "default_server_api_key = ''sample-abcdef''"

subsection \<open>Vocabulary of the properties\<close>

text \<open>
  A target is fresh when its name leads to an empty directory, or to a place where nothing
  exists yet.
\<close>

definition fresh_target :: "string \<Rightarrow> os_state \<Rightarrow> bool" where
  "fresh_target full_path s =
     (case resolve (root s) (cwd s) full_path of
        Inl e \<Rightarrow> False
      | Inr p \<Rightarrow>
          stat_node (root s) p = Inr (Dir []) \<or> stat_node (root s) p = Inl FileNotFoundError)"

text \<open>An entry name that \<^verbatim>\<open>os.path.join\<close> appends as one component.\<close>

definition simple_name :: "string \<Rightarrow> bool" where
  "simple_name b = (b \<noteq> [] \<and> CHR ''/'' \<notin> set b \<and> b \<noteq> ''.'' \<and> b \<noteq> ''..'')"

text \<open>The file system with the subtree at \<open>p\<close> replaced.\<close>

definition within :: "string list \<Rightarrow> node \<Rightarrow> os_state \<Rightarrow> os_state" where
  "within p n s = s\<lparr>root := put p n (root s)\<rparr>"

text \<open>
  The target directory as the run leaves it: before the template is copied, and with the
  application file in place.
\<close>

definition server_tree :: "(string \<times> node) list" where
  "server_tree =
     [(''Dockerfile'', File dockerfile_contents),
      (''requirements.txt'', File requirements_contents),
      (''__init__.py'', File [])]"

definition partial_tree :: "int \<Rightarrow> int \<Rightarrow> string \<Rightarrow> string \<Rightarrow> string \<Rightarrow> node" where
  "partial_tree mongodb_port http_port mongodb_user mongodb_pass server_api_key =
     Dir [(''server'', Dir server_tree),
          (''docker-compose.yml'', File (docker_compose_contents mongodb_port http_port)),
          (''.env'', File (env_contents mongodb_port mongodb_user mongodb_pass server_api_key))]"

definition project_tree ::
  "int \<Rightarrow> int \<Rightarrow> string \<Rightarrow> string \<Rightarrow> string \<Rightarrow> string \<Rightarrow> node" where
  "project_tree mongodb_port http_port mongodb_user mongodb_pass server_api_key app =
     Dir [(''server'', Dir (server_tree @ [(''app.py'', File app)])),
          (''docker-compose.yml'', File (docker_compose_contents mongodb_port http_port)),
          (''.env'', File (env_contents mongodb_port mongodb_user mongodb_pass server_api_key))]"

text \<open>
  Reading a compose file back: the lines of one service's block, and the port mappings
  listed under its \<^verbatim>\<open>ports\<close> key.
\<close>

definition service_block :: "string \<Rightarrow> string list \<Rightarrow> string list" where
  "service_block name ls =
     takeWhile (\<lambda>l. take 4 l = ''    '')
       (drop 1 (dropWhile (\<lambda>l. l \<noteq> ''  '' @ name @ '':'') ls))"

definition published_ports :: "string \<Rightarrow> string \<Rightarrow> string list" where
  "published_ports name contents =
     map (drop 8)
       (takeWhile (\<lambda>l. take 8 l = ''      - '')
          (drop 1 (dropWhile (\<lambda>l. l \<noteq> ''    ports:'')
             (service_block name (lines_of contents)))))"

text \<open>
  Reading an environment file back: a line \<^verbatim>\<open>KEY=VALUE\<close> is cut at its first equals
  sign, and a later line for a key overrides an earlier one.
\<close>

definition env_entry :: "string \<Rightarrow> (string \<times> string) option" where
  "env_entry l =
     (if CHR ''='' \<in> set l
      then Some (takeWhile (\<lambda>c. c \<noteq> CHR ''='') l, drop 1 (dropWhile (\<lambda>c. c \<noteq> CHR ''='') l))
      else None)"

definition env_entries :: "string \<Rightarrow> (string \<times> string) list" where
  "env_entries contents = List.map_filter env_entry (lines_of contents)"

definition env_value :: "string \<Rightarrow> string \<Rightarrow> string option" where
  "env_value contents key = map_of (rev (env_entries contents)) key"

text \<open>
  Reading a decimal numeral back, as \<^verbatim>\<open>int\<close> reads what \<^verbatim>\<open>str\<close> printed: digits only,
  with a minus sign before a negative number, no leading zero and no negative zero.
\<close>

definition digit_value :: "char \<Rightarrow> nat option" where
  "digit_value c = map_of (zip ''0123456789'' [0 ..< 10]) c"

definition decimal_nat :: "string \<Rightarrow> nat option" where
  "decimal_nat s =
     (if s = [] \<or> list_ex (\<lambda>c. digit_value c = None) s \<or> (1 < length s \<and> hd s = CHR ''0'')
      then None
      else Some (foldl (\<lambda>a c. 10 * a + the (digit_value c)) 0 s))"

definition decimal :: "string \<Rightarrow> int option" where
  "decimal s =
     (case s of
        [] \<Rightarrow> None
      | c # t \<Rightarrow>
          if c = CHR ''-''
          then (case decimal_nat t of
                  None \<Rightarrow> None
                | Some n \<Rightarrow> if n = 0 then None else Some (- int n))
          else map_option int (decimal_nat s))"

text \<open>
  The fixed text of the two parameterised artifacts, cut at the places where a request
  field is inserted: the artifact is the frame with the fields spliced in between.
\<close>

definition docker_compose_frame :: "string list" where
  "docker_compose_frame =
     [''version: '3.7'\<newline>services:\<newline>  mongodb:\<newline>    image: mongo:6.0\<newline>    env_file: .env\<newline>    ports:\<newline>      - '',
      '':27017\<newline>    expose:\<newline>      - '',
      ''\<newline>    volumes:\<newline>      - .tmp/mongo:/data/db\<newline>  http:\<newline>    build:\<newline>      context: ./server\<newline>    env_file: .env\<newline>    ports:\<newline>      - '',
      '':8080\<newline>    expose:\<newline>      - '',
      ''\<newline>'']"

definition env_frame :: "string list" where
  "env_frame =
     [''MONGO_INITDB_ROOT_USERNAME='',
      ''\<newline>MONGO_INITDB_ROOT_PASSWORD='',
      ''\<newline>DB_HOST=mongodb\<newline>DB_PORT='',
      ''\<newline>DB_USER='',
      ''\<newline>DB_PASS='',
      ''\<newline>SERVER_API_KEY='',
      ''\<newline>WAITRESS_PORT=8080\<newline>MODULE_NAME=app\<newline>VARIABLE_NAME=app\<newline>'']"

text \<open>
  The package as the repository lays it out: \<^verbatim>\<open>project.py\<close> in the directory
  \<^verbatim>\<open>generators\<close>, and the one bundled template,
  \<^verbatim>\<open>simple-application-template.py\<close>, in its subdirectory \<^verbatim>\<open>templates\<close>. The
  contents of the two files are parameters.
\<close>

definition installed_module_file :: string where
  "installed_module_file = ''/srv/gamemeanmachine/http_storage/generators/project.py''"

definition installed_state :: "string \<Rightarrow> string \<Rightarrow> os_state" where
  "installed_state project_py simple_template =
     \<lparr>cwd = [''srv''],
      root =
        Dir [(''srv'',
              Dir [(''gamemeanmachine'',
                    Dir [(''http_storage'',
                          Dir [(''generators'',
                                Dir [(''project.py'', File project_py),
                                     (''templates'',
                                      Dir [(''simple-application-template.py'',
                                            File simple_template)])])])])]),
             (''tmp'', Dir [])]\<rparr>"

text \<open>
  A small file system for the examples: an empty \<^verbatim>\<open>/tmp\<close>, a home directory, which is
  the working directory, with a one-line template and an empty file, and a directory
  \<^verbatim>\<open>/work\<close> that has a \<^verbatim>\<open>server\<close> subdirectory.
\<close>

definition example_state :: os_state where
  "example_state =
     \<lparr>cwd = [''home''],
      root = Dir [(''tmp'', Dir []),
                  (''home'', Dir [(''t.py'', File ''print(1)''), (''empty.py'', File [])]),
                  (''work'', Dir [(''server'', Dir [])])]\<rparr>"

section \<open>Properties\<close>

subsection \<open>Lemmas: path names\<close>

lemma split_sep_nonempty: "split_sep d s \<noteq> []"
  by (induction s) (auto split: list.splits)

lemma split_sep_no_sep: "d \<notin> set b \<Longrightarrow> split_sep d b = [b]"
  by (induction b) auto

lemma split_sep_append: "split_sep d (a @ d # b) = split_sep d a @ split_sep d b"
  by (induction a) (auto split: list.splits simp: split_sep_nonempty)

lemma is_abs_append: "a \<noteq> [] \<Longrightarrow> is_abs (a @ b) = is_abs a"
  by (cases a) (auto simp: is_abs_def)

lemma walk_append:
  "walk r acc (cs @ ds) = (case walk r acc cs of Inl e \<Rightarrow> Inl e | Inr p \<Rightarrow> walk r p ds)"
  by (induction cs arbitrary: acc) (auto split: sum.splits node.splits)

lemma walk_simple: "simple_name b \<Longrightarrow> walk r acc [b] = Inr (acc @ [b])"
  by (simp add: simple_name_def)

lemma walk_slash: "walk r acc (cs @ [[]]) = Inr p \<Longrightarrow> walk r acc cs = Inr p"
  by (auto simp: walk_append split: sum.splits node.splits)

lemma resolve_join1:
  assumes "resolve r wd a = Inr p" and "simple_name b"
  shows "resolve r wd (join1 a b) = Inr (p @ [b])"
proof -
  from assms(1) have ne: "a \<noteq> []" by (auto simp: resolve_def split: if_splits)
  from assms(2) have nb: "\<not> is_abs b"
    by (cases b) (auto simp: simple_name_def is_abs_def)
  from assms(2) have sb: "split_sep CHR ''/'' b = [b]"
    by (simp add: simple_name_def split_sep_no_sep)
  have wb: "walk r q [b] = Inr (q @ [b])" for q
    using assms(2) by (rule walk_simple)
  let ?start = "if is_abs a then [] else wd"
  from assms(1) ne have p: "walk r ?start (split_sep CHR ''/'' a) = Inr p"
    by (simp add: resolve_def)
  show ?thesis
  proof (cases "last a = CHR ''/''")
    case True
    with ne obtain a' where a: "a = a' @ ''/''"
      by (metis append_butlast_last_id)
    have sa: "split_sep CHR ''/'' a = split_sep CHR ''/'' a' @ [[]]"
      using split_sep_append [of "CHR ''/''" a' "[]"] by (simp add: a)
    from p have p': "walk r ?start (split_sep CHR ''/'' a') = Inr p"
      unfolding sa by (rule walk_slash)
    have j: "join1 a b = a' @ CHR ''/'' # b"
      using nb by (simp add: join1_def a)
    have abs: "is_abs (join1 a b) = is_abs a"
      using ne nb True by (simp add: join1_def is_abs_append)
    have "join1 a b \<noteq> []" by (simp add: j)
    then show ?thesis
      unfolding resolve_def abs
      by (simp add: j split_sep_append sb walk_append p' wb del: walk.simps)
  next
    case False
    have j: "join1 a b = a @ CHR ''/'' # b"
      using False ne nb by (simp add: join1_def)
    have abs: "is_abs (join1 a b) = is_abs a"
      using ne unfolding j by (rule is_abs_append)
    show ?thesis
      unfolding resolve_def abs
      by (simp add: j split_sep_append sb walk_append p wb del: walk.simps)
  qed
qed

lemma resolve_join_one:
  "resolve r wd a = Inr p \<Longrightarrow> simple_name b \<Longrightarrow>
   resolve r wd (os_path_join a [b]) = Inr (p @ [b])"
  by (simp add: os_path_join_def resolve_join1)

lemma resolve_join_two:
  "resolve r wd a = Inr p \<Longrightarrow> simple_name b \<Longrightarrow> simple_name c \<Longrightarrow>
   resolve r wd (os_path_join a [b, c]) = Inr (p @ [b, c])"
  using resolve_join1 [OF resolve_join1 [of r wd a p b], of c] by (simp add: os_path_join_def)

text \<open>Directories that stay directories keep every name resolving as before.\<close>

lemma walk_mono:
  assumes "\<And>q es. stat_node r q = Inr (Dir es) \<Longrightarrow> \<exists>es'. stat_node r' q = Inr (Dir es')"
  shows "walk r acc cs = Inr p \<Longrightarrow> walk r' acc cs = Inr p"
proof (induction cs arbitrary: acc)
  case Nil
  then show ?case by simp
next
  case (Cons c cs)
  show ?case
  proof (cases "c = [] \<or> c = ''.'' \<or> c = ''..''")
    case True
    with Cons.prems obtain es where es: "stat_node r acc = Inr (Dir es)"
      and w: "walk r (if c = ''..'' then butlast acc else acc) cs = Inr p"
      by (auto split: sum.splits node.splits if_splits)
    from assms [OF es] obtain es' where "stat_node r' acc = Inr (Dir es')" by blast
    with True Cons.IH [OF w] show ?thesis by auto
  next
    case False
    with Cons.prems Cons.IH [of "acc @ [c]"] show ?thesis by simp
  qed
qed

lemma resolve_mono:
  assumes "\<And>q es. stat_node r q = Inr (Dir es) \<Longrightarrow> \<exists>es'. stat_node r' q = Inr (Dir es')"
    and "resolve r wd path = Inr p"
  shows "resolve r' wd path = Inr p"
  using assms(2) walk_mono [of r r', OF assms(1)]
  by (auto simp: resolve_def split: if_splits)

subsection \<open>Lemmas: trees\<close>

lemma stat_append:
  "stat_node r p = Inr m \<Longrightarrow> stat_node r (p @ q) = stat_node m q"
proof (induction p arbitrary: r)
  case Nil
  then show ?case by simp
next
  case (Cons c cs)
  then show ?case
    by (cases r) (auto split: option.splits)
qed

lemma stat_put:
  "stat_node r p = Inr m \<Longrightarrow> stat_node (put p n r) p = Inr n"
proof (induction p arbitrary: r)
  case Nil
  then show ?case by simp
next
  case (Cons c cs)
  then show ?case
    by (cases r) (auto split: option.splits simp: update_conv')
qed

lemma put_put:
  "stat_node r p = Inr m \<Longrightarrow> put p n' (put p n r) = put p n' r"
proof (induction p arbitrary: r)
  case Nil
  then show ?case by simp
next
  case (Cons c cs)
  then show ?case
    by (cases r) (auto split: option.splits simp: update_conv')
qed

lemma put_append:
  "stat_node r p = Inr m \<Longrightarrow> put (p @ q) n r = put p (put q n m) r"
proof (induction p arbitrary: r)
  case Nil
  then show ?case by simp
next
  case (Cons c cs)
  then show ?case
    by (cases r) (auto split: option.splits)
qed

lemma put_same:
  "stat_node r p = Inr m \<Longrightarrow> put p m r = r"
proof (induction p arbitrary: r)
  case Nil
  then show ?case by simp
next
  case (Cons c cs)
  then show ?case
    by (cases r) (auto split: option.splits simp: AList.update_triv)
qed

lemma mkdirs_append:
  "stat_node r p = Inr m \<Longrightarrow>
   mkdirs (p @ q) r = (case mkdirs q m of Inl e \<Rightarrow> Inl e | Inr m' \<Rightarrow> Inr (put p m' r))"
proof (induction p arbitrary: r)
  case Nil
  then show ?case by (simp split: sum.splits)
next
  case (Cons c cs)
  then show ?case
    by (cases r) (auto split: option.splits sum.splits)
qed

lemma mkdirs_existing_dir:
  "stat_node r p = Inr (Dir es) \<Longrightarrow> mkdirs p r = Inr r"
  using mkdirs_append [of r p "Dir es" "[]"] by (simp add: put_same)

lemma mkdirs_existing_file:
  "stat_node r p = Inr (File b) \<Longrightarrow> mkdirs p r = Inl FileExistsError"
  using mkdirs_append [of r p "File b" "[]"] by simp

lemma stat_put_file:
  "stat_node r p = Inr (Dir []) \<Longrightarrow> stat_node r q = Inr (File b) \<Longrightarrow>
   stat_node (put p n r) q = Inr (File b)"
proof (induction p arbitrary: r q)
  case Nil
  then show ?case by (cases q) auto
next
  case (Cons c cs)
  show ?case
  proof (cases r)
    case (File x)
    with Cons.prems show ?thesis by simp
  next
    case (Dir es)
    with Cons.prems obtain m where m: "map_of es c = Some m" "stat_node m cs = Inr (Dir [])"
      by (auto split: option.splits)
    show ?thesis
    proof (cases q)
      case Nil
      with Cons.prems Dir show ?thesis by simp
    next
      case (Cons c' cs')
      with Cons.prems Dir m Cons.IH [of m cs'] show ?thesis
        by (auto split: option.splits simp: update_conv')
    qed
  qed
qed

lemma mkdirs_empty:
  "\<exists>m. mkdirs q (Dir []) = Inr m \<and> stat_node m q = Inr (Dir [])"
  by (induction q) auto

lemma mkdirs_missing:
  "stat_node r p = Inl FileNotFoundError \<Longrightarrow>
   \<exists>r'. mkdirs p r = Inr r' \<and> stat_node r' p = Inr (Dir [])"
proof (induction p arbitrary: r)
  case Nil
  then show ?case by simp
next
  case (Cons c cs)
  show ?case
  proof (cases r)
    case (File x)
    with Cons.prems show ?thesis by simp
  next
    case (Dir es)
    show ?thesis
    proof (cases "map_of es c")
      case None
      obtain m where "mkdirs cs (Dir []) = Inr m" "stat_node m cs = Inr (Dir [])"
        using mkdirs_empty by blast
      with Dir None show ?thesis
        by (auto simp: map_add_def)
    next
      case (Some n)
      with Cons.prems Dir have "stat_node n cs = Inl FileNotFoundError" by simp
      from Cons.IH [OF this] obtain n' where
        "mkdirs cs n = Inr n'" "stat_node n' cs = Inr (Dir [])"
        by blast
      with Dir Some show ?thesis
        by (auto simp: update_conv')
    qed
  qed
qed

text \<open>Creating directories keeps every file, and every directory a directory.\<close>

lemma mkdirs_keeps:
  "mkdirs p r = Inr r' \<Longrightarrow>
   (stat_node r q = Inr (File b) \<longrightarrow> stat_node r' q = Inr (File b)) \<and>
   (stat_node r q = Inr (Dir es) \<longrightarrow> (\<exists>es'. stat_node r' q = Inr (Dir es')))"
proof (induction p arbitrary: r r' q)
  case Nil
  then show ?case by (cases r) auto
next
  case (Cons c cs)
  show ?case
  proof (cases r)
    case (File x)
    with Cons.prems show ?thesis by simp
  next
    case (Dir es0)
    show ?thesis
    proof (cases "map_of es0 c")
      case None
      with Cons.prems Dir obtain m where r': "r' = Dir (es0 @ [(c, m)])"
        by (auto split: sum.splits)
      show ?thesis
        unfolding r' Dir using None
        by (cases q) (auto split: option.splits simp: map_add_def)
    next
      case (Some n)
      with Cons.prems Dir obtain n' where n': "mkdirs cs n = Inr n'"
        and r': "r' = Dir (AList.update c n' es0)"
        by (auto split: sum.splits)
      show ?thesis
      proof (cases q)
        case Nil
        then show ?thesis by (simp add: r' Dir)
      next
        case (Cons c' cs')
        with Some Cons.IH [OF n', of cs'] show ?thesis
          unfolding r' Dir by (auto split: option.splits simp: update_conv')
      qed
    qed
  qed
qed

lemma put_keeps_dirs_empty:
  "stat_node r p = Inr (Dir []) \<Longrightarrow> stat_node r q = Inr (Dir es) \<Longrightarrow>
   \<exists>es'. stat_node (put p (Dir ds) r) q = Inr (Dir es')"
proof (induction p arbitrary: r q)
  case Nil
  then show ?case by (cases q) auto
next
  case (Cons c cs)
  show ?case
  proof (cases r)
    case (File x)
    with Cons.prems show ?thesis by simp
  next
    case (Dir es0)
    with Cons.prems obtain m where m: "map_of es0 c = Some m" "stat_node m cs = Inr (Dir [])"
      by (auto split: option.splits)
    show ?thesis
    proof (cases q)
      case Nil
      with Dir m show ?thesis by simp
    next
      case (Cons c' cs')
      with Cons.prems Dir m Cons.IH [of m cs'] show ?thesis
        by (auto split: option.splits simp: update_conv')
    qed
  qed
qed

lemma put_keeps_dirs_new:
  "\<forall>ds. stat_node r p \<noteq> Inr (Dir ds) \<Longrightarrow> stat_node r q = Inr (Dir es) \<Longrightarrow>
   \<exists>es'. stat_node (put p n r) q = Inr (Dir es')"
proof (induction p arbitrary: r q)
  case Nil
  then show ?case by (cases r; cases q) auto
next
  case (Cons c cs)
  show ?case
  proof (cases r)
    case (File x)
    with Cons.prems show ?thesis by (cases q) auto
  next
    case (Dir es0)
    show ?thesis
    proof (cases q)
      case Nil
      with Dir show ?thesis by (simp split: option.splits)
    next
      case q: (Cons c' cs')
      show ?thesis
      proof (cases "map_of es0 c")
        case None
        with Cons.prems Dir q show ?thesis
          by (auto split: option.splits simp: map_add_def)
      next
        case (Some m)
        with Cons.prems Dir have "\<forall>ds. stat_node m cs \<noteq> Inr (Dir ds)" by simp
        with Cons.prems Dir q Some Cons.IH [of m cs'] show ?thesis
          by (auto split: option.splits simp: update_conv')
      qed
    qed
  qed
qed

text \<open>Along a name that resolves, \<^verbatim>\<open>os.makedirs\<close> creates what the name denotes.\<close>

lemma mk_walk_resolved:
  "walk r acc cs = Inr p \<Longrightarrow>
   mk_walk acc cs r = (case mkdirs p r of Inl e \<Rightarrow> (Some e, r) | Inr r' \<Rightarrow> (None, r'))"
proof (induction cs arbitrary: acc)
  case Nil
  then show ?case by simp
next
  case (Cons c cs)
  show ?case
  proof (cases "c = [] \<or> c = ''.'' \<or> c = ''..''")
    case True
    with Cons.prems obtain es where es: "stat_node r acc = Inr (Dir es)"
      and w: "walk r (if c = ''..'' then butlast acc else acc) cs = Inr p"
      by (auto split: sum.splits node.splits if_splits)
    from es have "mkdirs acc r = Inr r" by (rule mkdirs_existing_dir)
    with True es Cons.IH [OF w] show ?thesis by auto
  next
    case False
    with Cons.prems Cons.IH [of "acc @ [c]"] show ?thesis by simp
  qed
qed

lemma mk_walk_keeps_files:
  "mk_walk acc cs r = (e, r') \<Longrightarrow> stat_node r q = Inr (File b) \<Longrightarrow>
   stat_node r' q = Inr (File b)"
proof (induction cs arbitrary: acc r)
  case Nil
  then show ?case
    by (auto split: sum.splits dest: mkdirs_keeps)
next
  case (Cons c cs)
  show ?case
  proof (cases "c = ''..'' \<and> (\<forall>x. stat_node r acc \<noteq> Inr (File x))")
    case True
    then have step: "mk_walk acc (c # cs) r =
        (case mkdirs acc r of Inl e \<Rightarrow> (Some e, r) | Inr r1 \<Rightarrow> mk_walk (butlast acc) cs r1)"
      by (auto split: sum.splits node.splits)
    show ?thesis
    proof (cases "mkdirs acc r")
      case (Inl x)
      with step Cons.prems show ?thesis by simp
    next
      case (Inr r1)
      with step Cons.prems have "mk_walk (butlast acc) cs r1 = (e, r')" by simp
      moreover from mkdirs_keeps [OF Inr, of q b] Cons.prems(2)
      have "stat_node r1 q = Inr (File b)" by simp
      ultimately show ?thesis by (rule Cons.IH)
    qed
  next
    case False
    with Cons.prems Cons.IH [of acc r] Cons.IH [of "acc @ [c]" r] show ?thesis
      by (auto split: if_splits sum.splits node.splits)
  qed
qed

subsection \<open>Lemmas: creating directories and writing files\<close>

lemma os_makedirs_resolved:
  assumes "resolve (root s) (cwd s) path = Inr p"
  shows "os_makedirs path s =
     (case mkdirs p (root s) of Inl e \<Rightarrow> (Some e, s) | Inr r \<Rightarrow> (None, s\<lparr>root := r\<rparr>))"
proof -
  from assms have ne: "path \<noteq> []"
    and w: "walk (root s) (if is_abs path then [] else cwd s) (split_sep CHR ''/'' path) = Inr p"
    by (auto simp: resolve_def split: if_splits)
  show ?thesis
    using ne by (simp add: os_makedirs_def mk_walk_resolved [OF w] split: sum.splits)
qed

lemma cwd_within [simp]: "cwd (within p n s) = cwd s"
  by (simp add: within_def)

lemma resolve_within:
  assumes "resolve (root s) wd path = Inr q" and "stat_node (root s) p = Inr (Dir [])"
  shows "resolve (root (within p (Dir ds) s)) wd path = Inr q"
proof (rule resolve_mono [OF _ assms(1)])
  fix x es
  assume "stat_node (root s) x = Inr (Dir es)"
  with assms(2) show "\<exists>es'. stat_node (root (within p (Dir ds) s)) x = Inr (Dir es')"
    by (simp add: within_def put_keeps_dirs_empty)
qed

lemma os_stat_within:
  assumes "resolve (root s) (cwd s) path = Inr (p @ q)" and "stat_node (root s) p = Inr (Dir [])"
  shows "os_stat path (within p (Dir ds) s) = stat_node (Dir ds) q"
  using resolve_within [OF assms, of ds] assms(2)
  by (simp add: os_stat_def) (simp add: within_def stat_put stat_append)

lemma within_within:
  "stat_node (root s) p = Inr m \<Longrightarrow> within p n' (within p n s) = within p n' s"
  by (simp add: within_def put_put)

lemma within_same:
  "stat_node (root s) p = Inr m \<Longrightarrow> within p m s = s"
  by (simp add: within_def put_same)

lemma write_file_within:
  assumes "resolve (root s) (cwd s) path = Inr (p @ q)" and "stat_node (root s) p = Inr (Dir [])"
    and "q \<noteq> []" and "stat_node (Dir ds) (butlast q) = Inr (Dir es)"
    and "\<forall>xs. map_of es (last q) \<noteq> Some (Dir xs)"
  shows "write_file path c (within p (Dir ds) s) =
         (None, within p (put q (File c) (Dir ds)) s)"
proof -
  let ?n = "Dir ds"
  let ?r = "put p ?n (root s)"
  have res: "resolve (root (within p ?n s)) (cwd (within p ?n s)) path = Inr (p @ q)"
    using resolve_within [OF assms(1,2), of ds] by simp
  have here: "stat_node ?r p = Inr ?n" using assms(2) by (rule stat_put)
  then have parent: "stat_node ?r (p @ butlast q) = Inr (Dir es)"
    using assms(4) by (simp add: stat_append)
  have new: "put (p @ q) (File c) ?r = put p (put q (File c) ?n) (root s)"
    using here assms(2) by (simp add: put_append put_put)
  have entry: "(case map_of es (last q) of Some (Dir xs) \<Rightarrow> x | _ \<Rightarrow> y) = y"
    for x y :: "error option \<times> os_state"
    using assms(5) by (auto split: option.splits node.splits)
  have r: "root (within p ?n s) = ?r" by (simp add: within_def)
  show ?thesis
    unfolding write_file_def res
    using assms(3) parent
    by (simp add: r butlast_append entry) (simp add: within_def new)
qed

lemma os_makedirs_within:
  assumes "resolve (root s) (cwd s) path = Inr (p @ q)" and "stat_node (root s) p = Inr (Dir [])"
    and "mkdirs q (Dir ds) = Inr n'"
  shows "os_makedirs path (within p (Dir ds) s) = (None, within p n' s)"
proof -
  let ?n = "Dir ds"
  let ?r = "put p ?n (root s)"
  have res: "resolve (root (within p ?n s)) (cwd (within p ?n s)) path = Inr (p @ q)"
    using resolve_within [OF assms(1,2), of ds] by simp
  have here: "stat_node ?r p = Inr ?n" using assms(2) by (rule stat_put)
  have "mkdirs (p @ q) ?r = Inr (put p n' (root s))"
    using assms(2,3) by (simp add: mkdirs_append [OF here] put_put)
  then show ?thesis
    unfolding os_makedirs_resolved [OF res] by (simp add: within_def)
qed

lemma run_all_append:
  "run_all (fs @ gs) s =
     (case run_all fs s of (None, s') \<Rightarrow> run_all gs s' | (Some e, s') \<Rightarrow> (Some e, s'))"
  by (induction fs arbitrary: s) (auto split: prod.splits option.splits)

subsection \<open>Lemmas: a run on a fresh target\<close>

lemma simple_names:
  "simple_name ''server''" "simple_name ''docker-compose.yml''" "simple_name ''.env''"
  "simple_name ''Dockerfile''" "simple_name ''requirements.txt''"
  "simple_name ''__init__.py''" "simple_name ''app.py''"
  by (simp_all add: simple_name_def)

lemma artifacts_written:
  assumes p: "resolve (root s) (cwd s) full_path = Inr p" and e: "stat_node (root s) p = Inr (Dir [])"
  shows "run_all
       [os_makedirs (os_path_join full_path [''server'']),
        make_docker_compose_file full_path mongodb_port http_port,
        make_env_file full_path mongodb_port mongodb_user mongodb_pass server_api_key,
        make_dockerfile full_path,
        make_requirements_file full_path,
        make_init_file full_path] s =
     (None, within p (partial_tree mongodb_port http_port mongodb_user mongodb_pass server_api_key) s)"
proof -
  note r1 = resolve_join_one [OF p] and r2 = resolve_join_two [OF p]
  have s: "s = within p (Dir []) s" using e by (simp add: within_same)
  have 1: "os_makedirs (os_path_join full_path [''server'']) (within p (Dir []) s) =
      (None, within p (Dir [(''server'', Dir [])]) s)"
    by (rule os_makedirs_within [OF r1 e]) (simp_all add: simple_names)
  have 2: "make_docker_compose_file full_path mongodb_port http_port
        (within p (Dir [(''server'', Dir [])]) s) =
      (None, within p (Dir [(''server'', Dir []),
         (''docker-compose.yml'', File (docker_compose_contents mongodb_port http_port))]) s)"
    unfolding make_docker_compose_file_def
    by (simp add: write_file_within [OF r1 e] simple_names)
  have 3: "make_env_file full_path mongodb_port mongodb_user mongodb_pass server_api_key
        (within p (Dir [(''server'', Dir []),
         (''docker-compose.yml'', File (docker_compose_contents mongodb_port http_port))]) s) =
      (None, within p (Dir [(''server'', Dir []),
         (''docker-compose.yml'', File (docker_compose_contents mongodb_port http_port)),
         (''.env'', File (env_contents mongodb_port mongodb_user mongodb_pass server_api_key))]) s)"
    unfolding make_env_file_def
    by (simp add: write_file_within [OF r1 e] simple_names)
  have 4: "make_dockerfile full_path
        (within p (Dir [(''server'', Dir []), dc, ev]) s) =
      (None, within p (Dir [(''server'', Dir [(''Dockerfile'', File dockerfile_contents)]), dc, ev]) s)"
    if "fst dc = ''docker-compose.yml''" "fst ev = ''.env''" for dc ev
    unfolding make_dockerfile_def using that
    by (cases dc; cases ev) (simp add: write_file_within [OF r2 e] simple_names)
  have 5: "make_requirements_file full_path
        (within p (Dir [(''server'', Dir [(''Dockerfile'', File dockerfile_contents)]), dc, ev]) s) =
      (None, within p (Dir [(''server'', Dir [(''Dockerfile'', File dockerfile_contents),
           (''requirements.txt'', File requirements_contents)]), dc, ev]) s)"
    if "fst dc = ''docker-compose.yml''" "fst ev = ''.env''" for dc ev
    unfolding make_requirements_file_def using that
    by (cases dc; cases ev) (simp add: write_file_within [OF r2 e] simple_names)
  have 6: "make_init_file full_path
        (within p (Dir [(''server'', Dir [(''Dockerfile'', File dockerfile_contents),
           (''requirements.txt'', File requirements_contents)]), dc, ev]) s) =
      (None, within p (Dir [(''server'', Dir server_tree), dc, ev]) s)"
    if "fst dc = ''docker-compose.yml''" "fst ev = ''.env''" for dc ev
    unfolding make_init_file_def server_tree_def using that
    by (cases dc; cases ev) (simp add: write_file_within [OF r2 e] simple_names)
  show ?thesis
    apply (subst s)
    apply (simp add: 1 2 3 4 5 6 partial_tree_def)
    done
qed

lemma make_app_file_within:
  assumes p: "resolve (root s) (cwd s) full_path = Inr p" and e: "stat_node (root s) p = Inr (Dir [])"
  shows "make_app_file module_file full_path template
           (within p (partial_tree a b u pw k) s) =
         (case read_file (template_path module_file template) (within p (partial_tree a b u pw k) s) of
            Inl err \<Rightarrow> (Some err, within p (partial_tree a b u pw k) s)
          | Inr app \<Rightarrow> (None, within p (project_tree a b u pw k app) s))"
proof -
  note r2 = resolve_join_two [OF p simple_names(1) simple_names(7)]
  let ?dst = "os_path_join full_path [''server'', ''app.py'']"
  let ?t = "within p (partial_tree a b u pw k) s"
  have absent: "os_stat ?dst ?t = Inl FileNotFoundError"
    by (simp add: os_stat_within [OF r2 e] partial_tree_def server_tree_def)
  then have nodir: "\<not> os_path_isdir ?dst ?t"
    by (simp add: os_path_isdir_def)
  have nosame: "\<not> samefile src ?dst ?t" for src
    using absent by (simp add: samefile_def split: sum.splits)
  have w: "write_file ?dst app ?t = (None, within p (project_tree a b u pw k app) s)" for app
    by (simp add: write_file_within [OF r2 e] partial_tree_def project_tree_def server_tree_def)
  show ?thesis
    by (simp add: make_app_file_def shutil_copy_def nodir nosame w split: sum.splits)
qed

lemma os_makedirs_fresh:
  assumes p: "resolve (root s) (cwd s) full_path = Inr p"
    and f: "stat_node (root s) p = Inr (Dir []) \<or> stat_node (root s) p = Inl FileNotFoundError"
  shows "\<exists>s'. os_makedirs full_path s = (None, s') \<and> cwd s' = cwd s \<and>
           stat_node (root s') p = Inr (Dir []) \<and>
           (\<forall>q b. stat_node (root s) q = Inr (File b) \<longrightarrow> stat_node (root s') q = Inr (File b)) \<and>
           (\<forall>path q. resolve (root s) (cwd s) path = Inr q \<longrightarrow>
              resolve (root s') (cwd s') path = Inr q)"
  using f
proof
  assume "stat_node (root s) p = Inr (Dir [])"
  then have "os_makedirs full_path s = (None, s)"
    by (simp add: os_makedirs_resolved [OF p] mkdirs_existing_dir)
  with \<open>stat_node (root s) p = Inr (Dir [])\<close> show ?thesis by simp
next
  assume "stat_node (root s) p = Inl FileNotFoundError"
  from mkdirs_missing [OF this] obtain r' where r':
    "mkdirs p (root s) = Inr r'" "stat_node r' p = Inr (Dir [])"
    by blast
  have files: "stat_node r' q = Inr (File b)" if "stat_node (root s) q = Inr (File b)" for q b
    using mkdirs_keeps [OF r'(1), of q b] that by simp
  have dirs: "\<exists>es'. stat_node r' q = Inr (Dir es')" if "stat_node (root s) q = Inr (Dir es)" for q es
    using mkdirs_keeps [OF r'(1), of q _ es] that by simp
  have res: "resolve r' (cwd s) path = Inr q" if "resolve (root s) (cwd s) path = Inr q" for path q
    using dirs that by (rule resolve_mono)
  have "os_makedirs full_path s = (None, s\<lparr>root := r'\<rparr>)"
    by (simp add: os_makedirs_resolved [OF p] r'(1))
  with r'(2) files res show ?thesis by simp
qed

lemma require_empty_ok:
  "resolve (root s) (cwd s) full_path = Inr p \<Longrightarrow> stat_node (root s) p = Inr (Dir []) \<Longrightarrow>
   require_empty full_path s = (None, s)"
  by (simp add: require_empty_def os_listdir_def os_stat_def)

lemma generate_project_fresh:
  assumes p: "resolve (root s) (cwd s) full_path = Inr p"
    and f: "stat_node (root s) p = Inr (Dir []) \<or> stat_node (root s) p = Inl FileNotFoundError"
  shows "\<exists>s'. os_makedirs full_path s = (None, s') \<and> cwd s' = cwd s \<and>
           resolve (root s') (cwd s') full_path = Inr p \<and>
           stat_node (root s') p = Inr (Dir []) \<and>
           (\<forall>q b. stat_node (root s) q = Inr (File b) \<longrightarrow> stat_node (root s') q = Inr (File b)) \<and>
           (\<forall>path q. resolve (root s) (cwd s) path = Inr q \<longrightarrow>
              resolve (root s') (cwd s') path = Inr q) \<and>
           generate_project module_file full_path template a b u pw k s =
             (case read_file (template_path module_file template) (within p (partial_tree a b u pw k) s') of
                Inl err \<Rightarrow> (Some err, within p (partial_tree a b u pw k) s')
              | Inr app \<Rightarrow> (None, within p (project_tree a b u pw k app) s'))"
proof -
  from os_makedirs_fresh [OF p f] obtain s' where s':
    "os_makedirs full_path s = (None, s')" "cwd s' = cwd s"
    "stat_node (root s') p = Inr (Dir [])"
    "\<forall>q b. stat_node (root s) q = Inr (File b) \<longrightarrow> stat_node (root s') q = Inr (File b)"
    "\<forall>path q. resolve (root s) (cwd s) path = Inr q \<longrightarrow> resolve (root s') (cwd s') path = Inr q"
    by blast
  from p s'(5) have p': "resolve (root s') (cwd s') full_path = Inr p" by blast
  have split: "generate_project module_file full_path template a b u pw k =
      run_all ([os_makedirs full_path, require_empty full_path] @
        [os_makedirs (os_path_join full_path [''server'']),
         make_docker_compose_file full_path a b,
         make_env_file full_path a u pw k,
         make_dockerfile full_path,
         make_requirements_file full_path,
         make_init_file full_path] @
        [make_app_file module_file full_path template])"
    by (simp add: generate_project_def project_steps_def)
  have A: "run_all [os_makedirs full_path, require_empty full_path] s = (None, s')"
    by (simp add: s'(1) require_empty_ok [OF p' s'(3)])
  have C: "run_all [make_app_file module_file full_path template] t =
      make_app_file module_file full_path template t" for t
    by (simp split: prod.splits option.splits)
  have "generate_project module_file full_path template a b u pw k s =
      make_app_file module_file full_path template (within p (partial_tree a b u pw k) s')"
    unfolding split
    by (simp only: run_all_append A artifacts_written [OF p' s'(3)] C prod.case option.case)
  with s' p' show ?thesis
    by (simp add: make_app_file_within [OF p' s'(3)])
qed

subsection \<open>Lemmas: what a run on a fresh target leaves behind\<close>

lemma os_stat_below:
  "resolve (root s) (cwd s) path = Inr p \<Longrightarrow> os_stat path s = Inr n \<Longrightarrow>
   resolve (root s) (cwd s) path' = Inr (p @ q) \<Longrightarrow> os_stat path' s = stat_node n q"
  by (simp add: os_stat_def stat_append)

lemma fresh_targetD:
  assumes "fresh_target full_path s"
  obtains p where "resolve (root s) (cwd s) full_path = Inr p"
    and "stat_node (root s) p = Inr (Dir []) \<or> stat_node (root s) p = Inl FileNotFoundError"
  using assms
  by (auto simp: fresh_target_def split: sum.splits)

lemma os_stat_within_here:
  "resolve (root s) (cwd s) path = Inr p \<Longrightarrow> stat_node (root s) p = Inr (Dir []) \<Longrightarrow>
   os_stat path (within p (Dir ds) s) = Inr (Dir ds)"
  using os_stat_within [of s path p "[]" ds] by simp

lemma read_file_within:
  assumes "stat_node (root s) p = Inr (Dir [])" and "read_file path s = Inr b"
  shows "read_file path (within p (Dir ds) s) = Inr b"
proof -
  from assms(2) obtain q where q: "resolve (root s) (cwd s) path = Inr q"
    and "stat_node (root s) q = Inr (File b)"
    by (auto simp: read_file_def os_stat_def split: sum.splits node.splits)
  then have "stat_node (root (within p (Dir ds) s)) q = Inr (File b)"
    using stat_put_file [OF assms(1), of q b "Dir ds"] by (simp add: within_def)
  with resolve_within [OF q assms(1), of ds] show ?thesis
    by (simp add: read_file_def os_stat_def)
qed

lemma generate_project_valid_template:
  assumes "fresh_target full_path s"
    and "read_file (template_path module_file template) s = Inr app"
  shows "\<exists>s'. generate_project module_file full_path template a b u pw k s = (None, s') \<and>
           os_stat full_path s' = Inr (project_tree a b u pw k app)"
proof -
  from assms(1) obtain p where p: "resolve (root s) (cwd s) full_path = Inr p"
    and f: "stat_node (root s) p = Inr (Dir []) \<or> stat_node (root s) p = Inl FileNotFoundError"
    by (rule fresh_targetD)
  from generate_project_fresh [OF p f, of module_file template a b u pw k]
  obtain s1 where s1: "cwd s1 = cwd s" "resolve (root s1) (cwd s1) full_path = Inr p"
    "stat_node (root s1) p = Inr (Dir [])"
    "\<forall>q b. stat_node (root s) q = Inr (File b) \<longrightarrow> stat_node (root s1) q = Inr (File b)"
    "\<forall>path q. resolve (root s) (cwd s) path = Inr q \<longrightarrow> resolve (root s1) (cwd s1) path = Inr q"
    "generate_project module_file full_path template a b u pw k s =
       (case read_file (template_path module_file template) (within p (partial_tree a b u pw k) s1) of
          Inl err \<Rightarrow> (Some err, within p (partial_tree a b u pw k) s1)
        | Inr app \<Rightarrow> (None, within p (project_tree a b u pw k app) s1))"
    by blast
  from assms(2) obtain q where "resolve (root s) (cwd s) (template_path module_file template) = Inr q"
    and "stat_node (root s) q = Inr (File app)"
    by (auto simp: read_file_def os_stat_def split: sum.splits node.splits)
  with s1(4,5) have "read_file (template_path module_file template) s1 = Inr app"
    by (simp add: read_file_def os_stat_def)
  then have "read_file (template_path module_file template) (within p (partial_tree a b u pw k) s1) = Inr app"
    unfolding partial_tree_def by (rule read_file_within [OF s1(3)])
  with s1(6) have "generate_project module_file full_path template a b u pw k s =
      (None, within p (project_tree a b u pw k app) s1)"
    by simp
  moreover have "os_stat full_path (within p (project_tree a b u pw k app) s1) =
      Inr (project_tree a b u pw k app)"
    unfolding project_tree_def by (rule os_stat_within_here [OF s1(2,3)])
  ultimately show ?thesis by blast
qed

lemma fresh_outcome:
  assumes "fresh_target full_path s"
  shows "(\<exists>e s'. generate_project module_file full_path template a b u pw k s = (Some e, s') \<and>
            os_stat full_path s' = Inr (partial_tree a b u pw k) \<and>
            read_file (template_path module_file template) s' = Inl e) \<or>
         (\<exists>app s'. generate_project module_file full_path template a b u pw k s = (None, s') \<and>
            os_stat full_path s' = Inr (project_tree a b u pw k app))"
proof -
  from assms obtain p where p: "resolve (root s) (cwd s) full_path = Inr p"
    and f: "stat_node (root s) p = Inr (Dir []) \<or> stat_node (root s) p = Inl FileNotFoundError"
    by (rule fresh_targetD)
  from generate_project_fresh [OF p f, of module_file template a b u pw k]
  obtain s1 where s1: "resolve (root s1) (cwd s1) full_path = Inr p"
    "stat_node (root s1) p = Inr (Dir [])"
    "generate_project module_file full_path template a b u pw k s =
       (case read_file (template_path module_file template) (within p (partial_tree a b u pw k) s1) of
          Inl err \<Rightarrow> (Some err, within p (partial_tree a b u pw k) s1)
        | Inr app \<Rightarrow> (None, within p (project_tree a b u pw k app) s1))"
    by blast
  have here: "os_stat full_path (within p (partial_tree a b u pw k) s1) = Inr (partial_tree a b u pw k)"
    "os_stat full_path (within p (project_tree a b u pw k app) s1) = Inr (project_tree a b u pw k app)"
    for app
    unfolding partial_tree_def project_tree_def by (rule os_stat_within_here [OF s1(1,2)])+
  show ?thesis
  proof (cases "read_file (template_path module_file template) (within p (partial_tree a b u pw k) s1)")
    case (Inl e)
    with s1(3) here show ?thesis by auto
  next
    case (Inr app)
    with s1(3) here show ?thesis by auto
  qed
qed

lemma os_stat_join_one:
  assumes "os_stat full_path s = Inr n" and "simple_name c"
  shows "os_stat (os_path_join full_path [c]) s = stat_node n [c]"
proof -
  from assms(1) obtain p where p: "resolve (root s) (cwd s) full_path = Inr p"
    by (auto simp: os_stat_def split: sum.splits)
  from os_stat_below [OF p assms(1) resolve_join_one [OF p assms(2)]] show ?thesis .
qed


lemma os_stat_join_two:
  assumes "os_stat full_path s = Inr n" and "simple_name b" and "simple_name c"
  shows "os_stat (os_path_join full_path [b, c]) s = stat_node n [b, c]"
proof -
  from assms(1) obtain p where p: "resolve (root s) (cwd s) full_path = Inr p"
    by (auto simp: os_stat_def split: sum.splits)
  from os_stat_below [OF p assms(1) resolve_join_two [OF p assms(2,3)]] show ?thesis .
qed

lemma fresh_files:
  assumes "fresh_target full_path s"
  shows "read_file (os_path_join full_path [''docker-compose.yml''])
           (snd (generate_project module_file full_path template a b u pw k s)) =
         Inr (docker_compose_contents a b)"
    and "read_file (os_path_join full_path [''.env''])
           (snd (generate_project module_file full_path template a b u pw k s)) =
         Inr (env_contents a u pw k)"
  using fresh_outcome [OF assms, of module_file template a b u pw k]
  by (auto simp: read_file_def os_stat_join_one simple_names partial_tree_def project_tree_def)

subsection \<open>Lemmas: writing a file, and statements that fail\<close>

lemma write_file_ok:
  assumes "write_file path c s = (None, s')"
  shows "read_file path s' = Inr c \<and> write_file path c s' = (None, s')"
proof -
  from assms obtain p es where p: "resolve (root s) (cwd s) path = Inr p" "p \<noteq> []"
    and d: "stat_node (root s) (butlast p) = Inr (Dir es)"
    and nd: "\<forall>ds. map_of es (last p) \<noteq> Some (Dir ds)"
    and s': "s' = s\<lparr>root := put p (File c) (root s)\<rparr>"
    by (auto simp: write_file_def split: option.splits if_splits sum.splits node.splits)
  let ?pp = "butlast p" and ?nm = "last p"
  let ?es = "case map_of es ?nm of None \<Rightarrow> es @ [(?nm, File c)]
             | Some m \<Rightarrow> AList.update ?nm (File c) es"
  from p(2) have pe: "p = ?pp @ [?nm]" by simp
  have old: "stat_node (root s) p = (case map_of es ?nm of None \<Rightarrow> Inl FileNotFoundError
       | Some m \<Rightarrow> Inr m)"
    using stat_append [OF d, of "[?nm]"] pe by (simp split: option.splits)
  with nd have nodir: "\<forall>ds. stat_node (root s) p \<noteq> Inr (Dir ds)"
    by (auto split: option.splits)
  have "resolve (put p (File c) (root s)) (cwd s) path = Inr p"
  proof (rule resolve_mono [OF _ p(1)])
    fix q xs
    assume "stat_node (root s) q = Inr (Dir xs)"
    with nodir show "\<exists>es'. stat_node (put p (File c) (root s)) q = Inr (Dir es')"
      by (rule put_keeps_dirs_new)
  qed
  then have res: "resolve (root s') (cwd s') path = Inr p"
    by (simp add: s')
  have new: "put [?nm] (File c) (Dir es) = Dir ?es"
    by (simp split: option.splits)
  have ent: "map_of ?es ?nm = Some (File c)"
    by (simp split: option.splits add: update_conv' map_add_def)
  have r: "put p (File c) (root s) = put ?pp (Dir ?es) (root s)"
    using put_append [OF d, of "[?nm]" "File c"] pe new by simp
  have par: "stat_node (root s') ?pp = Inr (Dir ?es)"
    unfolding s' using stat_put [OF d] r by simp
  then have here: "stat_node (root s') p = Inr (File c)"
    using stat_append [OF par, of "[?nm]"] pe ent by simp
  have again: "put p (File c) (root s') = root s'"
    using here by (rule put_same)
  have rd: "read_file path s' = Inr c"
    using res here by (simp add: read_file_def os_stat_def)
  have nd': "(case map_of ?es ?nm of Some (Dir ds) \<Rightarrow> x | _ \<Rightarrow> y) = y"
    for x y :: "error option \<times> os_state"
    by (simp add: ent)
  have "write_file path c s' = (None, s')"
    using p(2) par again nd' by (simp add: write_file_def res)
  with rd show ?thesis by simp
qed

text \<open>A statement that fails leaves every file where it is.\<close>

lemma os_makedirs_keeps_files:
  assumes "os_makedirs path s = (e, s')" and "stat_node (root s) q = Inr (File b)"
  shows "stat_node (root s') q = Inr (File b)"
proof (cases "path = []")
  case True
  with assms show ?thesis by (simp add: os_makedirs_def)
next
  case False
  obtain e' r' where m: "mk_walk (if is_abs path then [] else cwd s)
      (split_sep CHR ''/'' path) (root s) = (e', r')"
    by (cases "mk_walk (if is_abs path then [] else cwd s) (split_sep CHR ''/'' path) (root s)")
  with assms(1) False have "s' = s\<lparr>root := r'\<rparr>"
    by (simp add: os_makedirs_def)
  with mk_walk_keeps_files [OF m assms(2)] show ?thesis by simp
qed

lemma require_empty_failure: "require_empty path s = (Some e, s') \<Longrightarrow> s' = s"
  by (auto simp: require_empty_def split: sum.splits if_splits)

lemma write_file_failure: "write_file path c s = (Some e, s') \<Longrightarrow> s' = s"
  by (auto simp: write_file_def split: option.splits sum.splits node.splits if_splits)

lemma shutil_copy_failure: "shutil_copy src dst s = (Some e, s') \<Longrightarrow> s' = s"
  by (auto simp: shutil_copy_def Let_def split: sum.splits if_splits dest: write_file_failure)

lemma project_step_failure:
  assumes "f \<in> set (project_steps module_file full_path template a b u pw k)"
    and "f s = (Some e, s')" and "stat_node (root s) q = Inr (File x)"
  shows "stat_node (root s') q = Inr (File x)"
proof -
  from assms(1) consider "f = os_makedirs full_path"
    | "f = os_makedirs (os_path_join full_path [''server''])" | "s' = s"
    using assms(2)
    by (auto simp: project_steps_def make_docker_compose_file_def make_env_file_def
          make_dockerfile_def make_requirements_file_def make_init_file_def make_app_file_def
        dest: require_empty_failure write_file_failure shutil_copy_failure)
  then show ?thesis
    using assms(2,3) by cases (auto dest: os_makedirs_keeps_files)
qed


lemma run_all_failure:
  "run_all fs s = (Some e, s') \<Longrightarrow>
   \<exists>n t. n < length fs \<and> run_all (take n fs) s = (None, t) \<and> (fs ! n) t = (Some e, s')"
proof (induction fs arbitrary: s)
  case Nil
  then show ?case by simp
next
  case (Cons f fs)
  show ?case
  proof (cases "f s")
    case (Pair r t)
    show ?thesis
    proof (cases r)
      case None
      with Cons.prems Pair have "run_all fs t = (Some e, s')" by simp
      from Cons.IH [OF this] obtain n t' where
        "n < length fs" "run_all (take n fs) t = (None, t')" "(fs ! n) t' = (Some e, s')"
        by blast
      with Pair None have "Suc n < length (f # fs) \<and>
          run_all (take (Suc n) (f # fs)) s = (None, t') \<and> ((f # fs) ! Suc n) t' = (Some e, s')"
        by simp
      then show ?thesis by blast
    next
      case (Some e')
      with Cons.prems Pair have "0 < length (f # fs) \<and>
          run_all (take 0 (f # fs)) s = (None, s) \<and> ((f # fs) ! 0) s = (Some e, s')"
        by simp
      then show ?thesis by blast
    qed
  qed
qed

subsection \<open>Lemmas: the lines of the environment file\<close>

lemma split_sep_line:
  "d \<notin> set l \<Longrightarrow> split_sep d (l @ d # rest) = l # split_sep d rest"
  by (simp add: split_sep_append split_sep_no_sep)

lemma str_nat_digits: "set (str_nat n) \<subseteq> set ''0123456789''"
proof (induction n rule: str_nat.induct)
  case (1 n)
  have d: "digit_char k \<in> set ''0123456789''" if "k < 10" for k
    unfolding digit_char_def using that by (intro nth_mem) simp
  show ?case
  proof (cases "n < 10")
    case True
    then show ?thesis using d [of n] by (subst str_nat.simps) simp
  next
    case False
    with 1 have "set (str_nat (n div 10)) \<subseteq> set ''0123456789''" by simp
    moreover have "digit_char (n mod 10) \<in> set ''0123456789''" by (rule d) simp
    ultimately show ?thesis using False by (subst str_nat.simps) simp
  qed
qed

lemma str_int_no_newline: "CHR ''\<newline>'' \<notin> set (str_int i)"
  using str_nat_digits [of "nat i"] str_nat_digits [of "nat (- i)"]
  by (auto simp: str_int_def)

lemma env_lines:
  assumes "CHR ''\<newline>'' \<notin> set u" and "CHR ''\<newline>'' \<notin> set pw" and "CHR ''\<newline>'' \<notin> set k"
  shows "lines_of (env_contents port u pw k) =
     [''MONGO_INITDB_ROOT_USERNAME='' @ u,
      ''MONGO_INITDB_ROOT_PASSWORD='' @ pw,
      ''DB_HOST=mongodb'',
      ''DB_PORT='' @ str_int port,
      ''DB_USER='' @ u,
      ''DB_PASS='' @ pw,
      ''SERVER_API_KEY='' @ k,
      ''WAITRESS_PORT=8080'',
      ''MODULE_NAME=app'',
      ''VARIABLE_NAME=app'',
      []]"
proof -
  have c: "env_contents port u pw k =
      (''MONGO_INITDB_ROOT_USERNAME='' @ u) @ CHR ''\<newline>'' #
      (''MONGO_INITDB_ROOT_PASSWORD='' @ pw) @ CHR ''\<newline>'' #
      ''DB_HOST=mongodb'' @ CHR ''\<newline>'' #
      (''DB_PORT='' @ str_int port) @ CHR ''\<newline>'' #
      (''DB_USER='' @ u) @ CHR ''\<newline>'' #
      (''DB_PASS='' @ pw) @ CHR ''\<newline>'' #
      (''SERVER_API_KEY='' @ k) @ CHR ''\<newline>'' #
      ''WAITRESS_PORT=8080'' @ CHR ''\<newline>'' #
      ''MODULE_NAME=app'' @ CHR ''\<newline>'' #
      ''VARIABLE_NAME=app'' @ CHR ''\<newline>'' # []"
    by (simp add: env_contents_def)
  have n: "CHR ''\<newline>'' \<notin> set (''MONGO_INITDB_ROOT_USERNAME='' @ u)"
    "CHR ''\<newline>'' \<notin> set (''MONGO_INITDB_ROOT_PASSWORD='' @ pw)"
    "CHR ''\<newline>'' \<notin> set ''DB_HOST=mongodb''"
    "CHR ''\<newline>'' \<notin> set (''DB_PORT='' @ str_int port)"
    "CHR ''\<newline>'' \<notin> set (''DB_USER='' @ u)"
    "CHR ''\<newline>'' \<notin> set (''DB_PASS='' @ pw)"
    "CHR ''\<newline>'' \<notin> set (''SERVER_API_KEY='' @ k)"
    "CHR ''\<newline>'' \<notin> set ''WAITRESS_PORT=8080''"
    "CHR ''\<newline>'' \<notin> set ''MODULE_NAME=app''"
    "CHR ''\<newline>'' \<notin> set ''VARIABLE_NAME=app''"
    using assms str_int_no_newline [of port] by simp_all
  show ?thesis
    unfolding c lines_of_def
    by (simp only: split_sep_line n split_sep.simps(1) not_False_eq_True simp_thms)
qed

lemma env_values_no_newline:
  assumes "CHR ''\<newline>'' \<notin> set u" and "CHR ''\<newline>'' \<notin> set pw" and "CHR ''\<newline>'' \<notin> set k"
  shows "env_value (env_contents port u pw k) ''MONGO_INITDB_ROOT_USERNAME'' = Some u"
    and "env_value (env_contents port u pw k) ''DB_USER'' = Some u"
    and "env_value (env_contents port u pw k) ''MONGO_INITDB_ROOT_PASSWORD'' = Some pw"
    and "env_value (env_contents port u pw k) ''DB_PASS'' = Some pw"
  by (simp_all add: env_value_def env_entries_def env_lines [OF assms] env_entry_def
        List.map_filter_simps)

subsection \<open>Lemmas: decimal numerals\<close>

text \<open>What \<^verbatim>\<open>str\<close> prints for an integer reads back as that integer.\<close>

lemma digit_cases: "d < 10 \<Longrightarrow> d \<in> {0, 1, 2, 3, 4, 5, 6, 7, 8, 9 :: nat}"
  by auto

lemma digit_value_char: "d < 10 \<Longrightarrow> digit_value (digit_char d) = Some d"
  using digit_cases [of d] by (auto simp: digit_value_def digit_char_def upt_rec)

lemma digit_char_zero: "d < 10 \<Longrightarrow> digit_char d = CHR ''0'' \<Longrightarrow> d = 0"
  using digit_cases [of d] by (auto simp: digit_char_def)

lemma digit_value_minus: "digit_value CHR ''-'' = None"
  by (simp add: digit_value_def upt_rec)

lemma str_nat_nonempty: "str_nat n \<noteq> []"
  by (subst str_nat.simps) simp

lemma str_nat_value:
  "foldl (\<lambda>a c. 10 * a + the (digit_value c)) 0 (str_nat n) = n"
proof (induction n rule: str_nat.induct)
  case (1 n)
  show ?case
  proof (cases "n < 10")
    case True
    then show ?thesis by (subst str_nat.simps) (simp add: digit_value_char)
  next
    case False
    with 1 have "foldl (\<lambda>a c. 10 * a + the (digit_value c)) 0 (str_nat (n div 10)) = n div 10"
      by simp
    with False show ?thesis
      by (subst str_nat.simps) (simp add: digit_value_char)
  qed
qed

lemma str_nat_all_digits: "\<not> list_ex (\<lambda>c. digit_value c = None) (str_nat n)"
proof (induction n rule: str_nat.induct)
  case (1 n)
  show ?case
  proof (cases "n < 10")
    case True
    then show ?thesis by (subst str_nat.simps) (simp add: digit_value_char)
  next
    case False
    with 1 have "\<not> list_ex (\<lambda>c. digit_value c = None) (str_nat (n div 10))" by simp
    with False show ?thesis
      by (subst str_nat.simps) (simp add: digit_value_char)
  qed
qed

lemma str_nat_leading:
  "(1 < length (str_nat n) \<longrightarrow> 10 \<le> n) \<and> (hd (str_nat n) = CHR ''0'' \<longrightarrow> n = 0)"
proof (induction n rule: str_nat.induct)
  case (1 n)
  show ?case
  proof (cases "n < 10")
    case True
    then show ?thesis
      by (subst (1 2) str_nat.simps) (auto dest: digit_char_zero)
  next
    case False
    with 1 have "hd (str_nat (n div 10)) = CHR ''0'' \<longrightarrow> n div 10 = 0" by simp
    moreover from False have "n div 10 \<noteq> 0" by simp
    ultimately show ?thesis
      using False by (subst (1 2) str_nat.simps) (simp add: str_nat_nonempty)
  qed
qed

lemma decimal_nat_str_nat: "decimal_nat (str_nat n) = Some n"
  using str_nat_leading [of n]
  by (auto simp: decimal_nat_def str_nat_nonempty str_nat_all_digits str_nat_value)

lemma str_nat_no_minus: "hd (str_nat n) \<noteq> CHR ''-''"
proof
  assume "hd (str_nat n) = CHR ''-''"
  then have "CHR ''-'' \<in> set (str_nat n)"
    using str_nat_nonempty [of n] by (metis hd_in_set)
  with str_nat_all_digits [of n] show False
    by (auto simp: list_ex_iff digit_value_minus)
qed

lemma decimal_str_int: "decimal (str_int i) = Some i"
proof (cases "i < 0")
  case True
  then show ?thesis
    by (simp add: decimal_def str_int_def decimal_nat_str_nat)
next
  case False
  obtain c t where ct: "str_nat (nat i) = c # t"
    using str_nat_nonempty [of "nat i"] by (cases "str_nat (nat i)") auto
  with str_nat_no_minus [of "nat i"] have "c \<noteq> CHR ''-''" by simp
  with False ct decimal_nat_str_nat [of "nat i"] show ?thesis
    by (simp add: decimal_def str_int_def)
qed

text \<open>The numeral is the only string that reads as its number.\<close>

lemma digit_char_value: "digit_value c = Some d \<Longrightarrow> d < 10 \<and> digit_char d = c"
  by (auto simp: digit_value_def digit_char_def upt_rec split: if_splits)

lemma decimal_nat_unique: "decimal_nat s = Some n \<Longrightarrow> s = str_nat n"
proof (induction s arbitrary: n rule: rev_induct)
  case Nil
  then show ?case by (simp add: decimal_nat_def)
next
  case (snoc c t)
  let ?v = "foldl (\<lambda>a c. 10 * a + the (digit_value c)) 0"
  from snoc.prems have dig: "\<not> list_ex (\<lambda>c. digit_value c = None) t"
    and dc: "digit_value c \<noteq> None"
    and lead: "\<not> (1 < length (t @ [c]) \<and> hd (t @ [c]) = CHR ''0'')"
    and n: "n = 10 * ?v t + the (digit_value c)"
    by (auto simp: decimal_nat_def split: if_splits)
  from dc obtain d where d: "digit_value c = Some d" by auto
  then have d10: "d < 10" and dch: "digit_char d = c"
    using digit_char_value by blast+
  show ?case
  proof (cases "t = []")
    case True
    with n d d10 dch show ?thesis
      by (subst str_nat.simps) simp
  next
    case False
    with lead have h: "hd t \<noteq> CHR ''0''" by simp
    with False dig have "decimal_nat t = Some (?v t)"
      by (simp add: decimal_nat_def)
    then have t: "t = str_nat (?v t)" by (rule snoc.IH)
    have "?v t \<noteq> 0"
    proof
      assume "?v t = 0"
      with t have "t = str_nat 0" by simp
      then have "hd t = CHR ''0''" by (subst (asm) str_nat.simps) (simp add: digit_char_def)
      with h show False by simp
    qed
    with n d d10 have "\<not> n < 10" "n div 10 = ?v t" "n mod 10 = d" by auto
    then have "str_nat n = str_nat (?v t) @ [digit_char d]"
      by (subst str_nat.simps) simp
    with t dch show ?thesis by simp
  qed
qed

lemma decimal_unique: "decimal s = Some i \<Longrightarrow> s = str_int i"
proof (cases s)
  case Nil
  assume "decimal s = Some i"
  with Nil show ?thesis by (simp add: decimal_def)
next
  case (Cons c t)
  assume a: "decimal s = Some i"
  show ?thesis
  proof (cases "c = CHR ''-''")
    case True
    with a Cons obtain n where n: "decimal_nat t = Some n" "n \<noteq> 0" "i = - int n"
      by (auto simp: decimal_def split: option.splits if_splits)
    from n(1) have "t = str_nat n" by (rule decimal_nat_unique)
    with n(2,3) Cons True show ?thesis by (simp add: str_int_def)
  next
    case False
    with a Cons obtain n where n: "decimal_nat s = Some n" "i = int n"
      by (auto simp: decimal_def)
    from n(1) have "s = str_nat n" by (rule decimal_nat_unique)
    with n(2) show ?thesis by (simp add: str_int_def)
  qed
qed

section \<open>The claims\<close>

text \<open>
  Rule sets that evaluate the model on a concrete file system.
\<close>

lemmas path_eval = resolve_def is_abs_def os_stat_def

lemmas write_eval =
  make_docker_compose_file_def make_env_file_def make_dockerfile_def make_requirements_file_def
  write_file_def read_file_def os_path_join_def join1_def path_eval

lemmas run_eval =
  generate_project_def project_steps_def os_makedirs_def require_empty_def os_listdir_def
  make_docker_compose_file_def make_env_file_def make_dockerfile_def make_requirements_file_def
  make_init_file_def make_app_file_def shutil_copy_def samefile_def os_path_isdir_def
  read_file_def write_file_def template_path_def os_path_join_def join1_def
  os_path_dirname_def os_path_basename_def path_head_def
  resolve_def is_abs_def os_stat_def

lemmas text_eval = lines_of_def str_int_def str_nat.simps digit_char_def

text \<open>
  Claim C1, amended. On a fresh target (an empty directory, or a name under which nothing
  exists yet) and with a template that is a readable file, the run succeeds and the target
  directory then holds exactly the six artifacts, at exactly their relative paths. The four
  composed files are non-empty, \<^verbatim>\<open>server/__init__.py\<close> is exactly empty, and
  \<^verbatim>\<open>server/app.py\<close> holds exactly the bytes of the template: it is non-empty if and
  only if the template is.
\<close>

theorem six_artifacts:
  assumes "fresh_target full_path s"
    and "read_file (template_path module_file template) s = Inr app"
  shows "\<exists>s'. generate_project module_file full_path template
                mongodb_port http_port mongodb_user mongodb_pass server_api_key s = (None, s') \<and>
           os_stat full_path s' =
             Inr (Dir [(''server'',
                        Dir [(''Dockerfile'', File dockerfile_contents),
                             (''requirements.txt'', File requirements_contents),
                             (''__init__.py'', File []),
                             (''app.py'', File app)]),
                       (''docker-compose.yml'',
                        File (docker_compose_contents mongodb_port http_port)),
                       (''.env'',
                        File (env_contents mongodb_port mongodb_user mongodb_pass
                                server_api_key))]) \<and>
           dockerfile_contents \<noteq> [] \<and> requirements_contents \<noteq> [] \<and>
           docker_compose_contents mongodb_port http_port \<noteq> [] \<and>
           env_contents mongodb_port mongodb_user mongodb_pass server_api_key \<noteq> []"
proof -
  have "dockerfile_contents \<noteq> []" "requirements_contents \<noteq> []"
    "docker_compose_contents mongodb_port http_port \<noteq> []"
    "env_contents mongodb_port mongodb_user mongodb_pass server_api_key \<noteq> []"
    by (simp_all add: dockerfile_contents_def requirements_contents_def
          docker_compose_contents_def env_contents_def)
  with generate_project_valid_template [OF assms] show ?thesis
    by (simp add: project_tree_def server_tree_def)
qed

theorem six_artifacts_witness:
  "fresh_target ''/tmp/proj1'' example_state \<and>
   read_file (template_path ''/pkg/project.py'' ''t.py'') example_state = Inr ''print(1)'' \<and>
   (\<exists>s'. generate_project ''/pkg/project.py'' ''/tmp/proj1'' ''t.py''
            27017 8080 ''admin'' ''p455w0rd'' ''sample-abcdef'' example_state = (None, s') \<and>
         os_stat ''/tmp/proj1'' s' =
           Inr (Dir [(''server'',
                      Dir [(''Dockerfile'', File dockerfile_contents),
                           (''requirements.txt'', File requirements_contents),
                           (''__init__.py'', File []),
                           (''app.py'', File ''print(1)'')]),
                     (''docker-compose.yml'', File (docker_compose_contents 27017 8080)),
                     (''.env'', File (env_contents 27017 ''admin'' ''p455w0rd'' ''sample-abcdef''))]))"
proof -
  have f: "fresh_target ''/tmp/proj1'' example_state"
    by (simp add: fresh_target_def path_eval example_state_def)
  have t: "read_file (template_path ''/pkg/project.py'' ''t.py'') example_state = Inr ''print(1)''"
    by (simp add: template_path_def read_file_def path_eval example_state_def)
  from six_artifacts [OF f t, of 27017 8080 "''admin''" "''p455w0rd''" "''sample-abcdef''"]
  show ?thesis using f t by blast
qed

text \<open>
  The claim as stated also promises a non-empty \<^verbatim>\<open>server/app.py\<close>. The template is
  copied without inspection, so an empty template file yields an empty application file.
\<close>

theorem empty_template_counterexample:
  "fresh_target ''/tmp/proj1'' example_state \<and>
   read_file (template_path ''/pkg/project.py'' ''empty.py'') example_state = Inr [] \<and>
   fst (generate_project ''/pkg/project.py'' ''/tmp/proj1'' ''empty.py''
          27017 8080 ''admin'' ''p455w0rd'' ''sample-abcdef'' example_state) = None \<and>
   read_file ''/tmp/proj1/server/app.py''
     (snd (generate_project ''/pkg/project.py'' ''/tmp/proj1'' ''empty.py''
          27017 8080 ''admin'' ''p455w0rd'' ''sample-abcdef'' example_state)) = Inr []"
proof -
  have f: "fresh_target ''/tmp/proj1'' example_state"
    by (simp add: fresh_target_def path_eval example_state_def)
  have t: "read_file (template_path ''/pkg/project.py'' ''empty.py'') example_state = Inr []"
    by (simp add: template_path_def read_file_def path_eval example_state_def)
  from generate_project_valid_template [OF f t, of 27017 8080 "''admin''" "''p455w0rd''" "''sample-abcdef''"]
  obtain s' where s': "generate_project ''/pkg/project.py'' ''/tmp/proj1'' ''empty.py''
          27017 8080 ''admin'' ''p455w0rd'' ''sample-abcdef'' example_state = (None, s')"
    "os_stat ''/tmp/proj1'' s' =
       Inr (project_tree 27017 8080 ''admin'' ''p455w0rd'' ''sample-abcdef'' [])"
    by blast
  have "os_path_join ''/tmp/proj1'' [''server'', ''app.py''] = ''/tmp/proj1/server/app.py''"
    by (simp add: os_path_join_def join1_def is_abs_def)
  with os_stat_join_two [OF s'(2) simple_names(1) simple_names(7)]
  have "os_stat ''/tmp/proj1/server/app.py'' s' = Inr (File [])"
    by (simp add: project_tree_def server_tree_def)
  then have "read_file ''/tmp/proj1/server/app.py'' s' = Inr []"
    by (simp add: read_file_def)
  with f t s'(1) show ?thesis by simp
qed

text \<open>
  Claim C2. When the target directory exists and has at least one entry, whatever its name,
  \<^verbatim>\<open>generate_project\<close> raises the error \<^verbatim>\<open>OSError("Directory not empty")\<close>, which is
  what the specification calls \<^verbatim>\<open>DirectoryNotEmptyError\<close>, and the file system is
  exactly as before: the check comes before every write, so nothing under the target is
  created or modified.
\<close>

theorem nonempty_target_rejected:
  assumes "os_listdir full_path s = Inr names" and "names \<noteq> []"
  shows "generate_project module_file full_path template
           mongodb_port http_port mongodb_user mongodb_pass server_api_key s =
         (Some (OSError ''Directory not empty''), s)"
proof -
  from assms(1) obtain p es where p: "resolve (root s) (cwd s) full_path = Inr p"
    and d: "stat_node (root s) p = Inr (Dir es)" and n: "names = map fst es"
    by (auto simp: os_listdir_def os_stat_def split: sum.splits node.splits)
  have 1: "os_makedirs full_path s = (None, s)"
    using d by (simp add: os_makedirs_resolved [OF p] mkdirs_existing_dir)
  have 2: "require_empty full_path s = (Some (OSError ''Directory not empty''), s)"
    using assms by (simp add: require_empty_def)
  show ?thesis
    by (simp add: generate_project_def project_steps_def 1 2)
qed

theorem nonempty_target_rejected_witness:
  "os_listdir ''/home'' example_state = Inr [''t.py'', ''empty.py''] \<and>
   generate_project ''/pkg/project.py'' ''/home'' ''t.py'' 27017 8080 ''admin'' ''p455w0rd''
       ''sample-abcdef'' example_state =
     (Some (OSError ''Directory not empty''), example_state)"
proof -
  have l: "os_listdir ''/home'' example_state = Inr [''t.py'', ''empty.py'']"
    by (simp add: os_listdir_def path_eval example_state_def)
  show ?thesis
    using l nonempty_target_rejected [OF l] by simp
qed

text \<open>
  Claim C3. The call with target \<^verbatim>\<open>/tmp/proj1\<close>, template \<^verbatim>\<open>default:simple\<close>, database
  port 27018, HTTP port 9090, user \<^verbatim>\<open>u\<close>, password \<^verbatim>\<open>p\<close> and API key \<^verbatim>\<open>k1\<close>, on a
  fresh target, leaves a \<^verbatim>\<open>.env\<close> file with the lines \<^verbatim>\<open>DB_PORT=27018\<close>,
  \<^verbatim>\<open>DB_USER=u\<close>, \<^verbatim>\<open>DB_PASS=p\<close> and \<^verbatim>\<open>SERVER_API_KEY=k1\<close>, and a
  \<^verbatim>\<open>docker-compose.yml\<close> whose service \<^verbatim>\<open>mongodb\<close> publishes \<^verbatim>\<open>27018:27017\<close> and
  whose service \<^verbatim>\<open>http\<close> publishes \<^verbatim>\<open>9090:8080\<close>. Both files are written before the
  template is looked up, so this holds whatever becomes of the copy.
\<close>

theorem end_to_end_scenario:
  assumes "fresh_target ''/tmp/proj1'' s"
  shows "\<exists>env compose.
           read_file ''/tmp/proj1/.env''
             (snd (generate_project module_file ''/tmp/proj1'' ''default:simple''
                     27018 9090 ''u'' ''p'' ''k1'' s)) = Inr env \<and>
           ''DB_PORT=27018'' \<in> set (lines_of env) \<and>
           ''DB_USER=u'' \<in> set (lines_of env) \<and>
           ''DB_PASS=p'' \<in> set (lines_of env) \<and>
           ''SERVER_API_KEY=k1'' \<in> set (lines_of env) \<and>
           read_file ''/tmp/proj1/docker-compose.yml''
             (snd (generate_project module_file ''/tmp/proj1'' ''default:simple''
                     27018 9090 ''u'' ''p'' ''k1'' s)) = Inr compose \<and>
           published_ports ''mongodb'' compose = [''27018:27017''] \<and>
           published_ports ''http'' compose = [''9090:8080'']"
proof -
  have e: "lines_of (env_contents 27018 ''u'' ''p'' ''k1'') =
      [''MONGO_INITDB_ROOT_USERNAME=u'', ''MONGO_INITDB_ROOT_PASSWORD=p'', ''DB_HOST=mongodb'',
       ''DB_PORT=27018'', ''DB_USER=u'', ''DB_PASS=p'', ''SERVER_API_KEY=k1'',
       ''WAITRESS_PORT=8080'', ''MODULE_NAME=app'', ''VARIABLE_NAME=app'', []]"
    by (simp add: env_contents_def text_eval)
  have p: "published_ports ''mongodb'' (docker_compose_contents 27018 9090) = [''27018:27017'']"
    "published_ports ''http'' (docker_compose_contents 27018 9090) = [''9090:8080'']"
    by (simp_all add: published_ports_def service_block_def docker_compose_contents_def text_eval)
  have j: "os_path_join ''/tmp/proj1'' [''.env''] = ''/tmp/proj1/.env''"
    "os_path_join ''/tmp/proj1'' [''docker-compose.yml''] = ''/tmp/proj1/docker-compose.yml''"
    by (simp_all add: os_path_join_def join1_def is_abs_def)
  from fresh_files [OF assms, of module_file "''default:simple''" 27018 9090 "''u''" "''p''" "''k1''"]
  show ?thesis
    unfolding j by (simp add: e p)
qed

theorem end_to_end_scenario_witness:
  "fresh_target ''/tmp/proj1'' example_state \<and>
   (\<exists>env compose.
           read_file ''/tmp/proj1/.env''
             (snd (generate_project ''/pkg/project.py'' ''/tmp/proj1'' ''default:simple''
                     27018 9090 ''u'' ''p'' ''k1'' example_state)) = Inr env \<and>
           ''DB_PORT=27018'' \<in> set (lines_of env) \<and>
           ''DB_USER=u'' \<in> set (lines_of env) \<and>
           ''DB_PASS=p'' \<in> set (lines_of env) \<and>
           ''SERVER_API_KEY=k1'' \<in> set (lines_of env) \<and>
           read_file ''/tmp/proj1/docker-compose.yml''
             (snd (generate_project ''/pkg/project.py'' ''/tmp/proj1'' ''default:simple''
                     27018 9090 ''u'' ''p'' ''k1'' example_state)) = Inr compose \<and>
           published_ports ''mongodb'' compose = [''27018:27017''] \<and>
           published_ports ''http'' compose = [''9090:8080''])"
proof -
  have f: "fresh_target ''/tmp/proj1'' example_state"
    by (simp add: fresh_target_def path_eval example_state_def)
  from end_to_end_scenario [OF f, of "''/pkg/project.py''"] f show ?thesis by blast
qed

text \<open>
  Claim C4. The selector \<^verbatim>\<open>default:simple\<close> is to copy the bundled simple template to
  \<^verbatim>\<open>server/app.py\<close>. The repository keeps that template in the subdirectory
  \<^verbatim>\<open>templates\<close> of the directory of \<^verbatim>\<open>project.py\<close>, while the code looks for it in
  the directory of \<^verbatim>\<open>project.py\<close> itself. On the package as laid out, with the default
  parameters and a fresh target, the run therefore ends in \<^verbatim>\<open>FileNotFoundError\<close> and no
  \<^verbatim>\<open>server/app.py\<close> is written, although the bundled template is there to be read.
\<close>

theorem default_simple_not_found:
  "template_path installed_module_file ''default:simple'' =
     ''/srv/gamemeanmachine/http_storage/generators/simple-application-template.py'' \<and>
   read_file ''/srv/gamemeanmachine/http_storage/generators/templates/simple-application-template.py''
     (installed_state project_py simple_template) = Inr simple_template \<and>
   fst (generate_project installed_module_file ''/tmp/proj1'' ''default:simple''
          default_mongodb_port default_http_port default_mongodb_user default_mongodb_pass
          default_server_api_key (installed_state project_py simple_template)) =
     Some FileNotFoundError \<and>
   os_stat ''/tmp/proj1/server/app.py''
     (snd (generate_project installed_module_file ''/tmp/proj1'' ''default:simple''
          default_mongodb_port default_http_port default_mongodb_user default_mongodb_pass
          default_server_api_key (installed_state project_py simple_template))) =
     Inl FileNotFoundError"
  by (simp add: run_eval installed_state_def installed_module_file_def)

text \<open>
  Claim C5. The selector \<^verbatim>\<open>default:multiple\<close> is to resolve to a bundled file as well.
  The code maps it to \<^verbatim>\<open>multichar-application-template.py\<close> beside \<^verbatim>\<open>project.py\<close>;
  the package has no such file, so the run ends in \<^verbatim>\<open>FileNotFoundError\<close> and no
  \<^verbatim>\<open>server/app.py\<close> is written.
\<close>

theorem default_multiple_not_found:
  "template_path installed_module_file ''default:multiple'' =
     ''/srv/gamemeanmachine/http_storage/generators/multichar-application-template.py'' \<and>
   fst (generate_project installed_module_file ''/tmp/proj1'' ''default:multiple''
          default_mongodb_port default_http_port default_mongodb_user default_mongodb_pass
          default_server_api_key (installed_state project_py simple_template)) =
     Some FileNotFoundError \<and>
   os_stat ''/tmp/proj1/server/app.py''
     (snd (generate_project installed_module_file ''/tmp/proj1'' ''default:multiple''
          default_mongodb_port default_http_port default_mongodb_user default_mongodb_pass
          default_server_api_key (installed_state project_py simple_template))) =
     Inl FileNotFoundError"
  by (simp add: run_eval installed_state_def installed_module_file_def)

text \<open>
  Claim C6. The composers of the orchestration file, the environment file, the build file
  and the dependency manifest are deterministic. In whatever file system the call succeeds,
  the file it leaves holds the text that is a function of the parameters alone; and a
  second call with the same inputs, made right after the first, succeeds and changes
  nothing: the two outputs are byte-identical.
\<close>

theorem composers_deterministic:
  "(fst (make_docker_compose_file project_path mongodb_port http_port s) = None \<longrightarrow>
      read_file (os_path_join project_path [''docker-compose.yml''])
        (snd (make_docker_compose_file project_path mongodb_port http_port s)) =
        Inr (docker_compose_contents mongodb_port http_port) \<and>
      make_docker_compose_file project_path mongodb_port http_port
        (snd (make_docker_compose_file project_path mongodb_port http_port s)) =
        (None, snd (make_docker_compose_file project_path mongodb_port http_port s))) \<and>
   (fst (make_env_file project_path mongodb_port mongodb_user mongodb_pass server_api_key s) = None \<longrightarrow>
      read_file (os_path_join project_path [''.env''])
        (snd (make_env_file project_path mongodb_port mongodb_user mongodb_pass server_api_key s)) =
        Inr (env_contents mongodb_port mongodb_user mongodb_pass server_api_key) \<and>
      make_env_file project_path mongodb_port mongodb_user mongodb_pass server_api_key
        (snd (make_env_file project_path mongodb_port mongodb_user mongodb_pass server_api_key s)) =
        (None, snd (make_env_file project_path mongodb_port mongodb_user mongodb_pass server_api_key s))) \<and>
   (fst (make_dockerfile project_path s) = None \<longrightarrow>
      read_file (os_path_join project_path [''server'', ''Dockerfile''])
        (snd (make_dockerfile project_path s)) = Inr dockerfile_contents \<and>
      make_dockerfile project_path (snd (make_dockerfile project_path s)) =
        (None, snd (make_dockerfile project_path s))) \<and>
   (fst (make_requirements_file project_path s) = None \<longrightarrow>
      read_file (os_path_join project_path [''server'', ''requirements.txt''])
        (snd (make_requirements_file project_path s)) = Inr requirements_contents \<and>
      make_requirements_file project_path (snd (make_requirements_file project_path s)) =
        (None, snd (make_requirements_file project_path s)))"
proof -
  have w: "fst (write_file path c s) = None \<longrightarrow>
      read_file path (snd (write_file path c s)) = Inr c \<and>
      write_file path c (snd (write_file path c s)) = (None, snd (write_file path c s))" for path c
    using write_file_ok [of path c s "snd (write_file path c s)"]
    by (metis prod.collapse)
  show ?thesis
    unfolding make_docker_compose_file_def make_env_file_def make_dockerfile_def
      make_requirements_file_def
    by (intro conjI w)
qed

theorem composers_deterministic_witness:
  "fst (make_docker_compose_file ''/work'' 27017 8080 example_state) = None \<and>
   fst (make_env_file ''/work'' 27017 ''admin'' ''p455w0rd'' ''sample-abcdef'' example_state) = None \<and>
   fst (make_dockerfile ''/work'' example_state) = None \<and>
   fst (make_requirements_file ''/work'' example_state) = None \<and>
   read_file (os_path_join ''/work'' [''docker-compose.yml''])
     (snd (make_docker_compose_file ''/work'' 27017 8080 example_state)) =
     Inr (docker_compose_contents 27017 8080) \<and>
   make_docker_compose_file ''/work'' 27017 8080
     (snd (make_docker_compose_file ''/work'' 27017 8080 example_state)) =
     (None, snd (make_docker_compose_file ''/work'' 27017 8080 example_state)) \<and>
   read_file (os_path_join ''/work'' [''.env''])
     (snd (make_env_file ''/work'' 27017 ''admin'' ''p455w0rd'' ''sample-abcdef'' example_state)) =
     Inr (env_contents 27017 ''admin'' ''p455w0rd'' ''sample-abcdef'') \<and>
   make_env_file ''/work'' 27017 ''admin'' ''p455w0rd'' ''sample-abcdef''
     (snd (make_env_file ''/work'' 27017 ''admin'' ''p455w0rd'' ''sample-abcdef'' example_state)) =
     (None, snd (make_env_file ''/work'' 27017 ''admin'' ''p455w0rd'' ''sample-abcdef''
                   example_state)) \<and>
   read_file (os_path_join ''/work'' [''server'', ''Dockerfile''])
     (snd (make_dockerfile ''/work'' example_state)) = Inr dockerfile_contents \<and>
   make_dockerfile ''/work'' (snd (make_dockerfile ''/work'' example_state)) =
     (None, snd (make_dockerfile ''/work'' example_state)) \<and>
   read_file (os_path_join ''/work'' [''server'', ''requirements.txt''])
     (snd (make_requirements_file ''/work'' example_state)) = Inr requirements_contents \<and>
   make_requirements_file ''/work'' (snd (make_requirements_file ''/work'' example_state)) =
     (None, snd (make_requirements_file ''/work'' example_state))"
proof -
  have ok: "fst (make_docker_compose_file ''/work'' 27017 8080 example_state) = None"
    "fst (make_env_file ''/work'' 27017 ''admin'' ''p455w0rd'' ''sample-abcdef'' example_state) = None"
    "fst (make_dockerfile ''/work'' example_state) = None"
    "fst (make_requirements_file ''/work'' example_state) = None"
    by (simp_all add: write_eval example_state_def)
  from composers_deterministic [of "''/work''" 27017 8080 example_state
      "''admin''" "''p455w0rd''" "''sample-abcdef''"] ok
  show ?thesis by simp
qed

text \<open>
  Claim C7. Take two requests for the same fresh target that differ only in the database
  port, the HTTP port, the user, the password or the API key. In both runs, the
  orchestration file is the same fixed frame with the two ports of the request spliced in,
  and the environment file is the same fixed frame with the user, the password, the
  database port and the API key of the request spliced in. The user, the password and the
  key appear as given. A port appears as its decimal numeral: the field reads back as the
  port that was supplied, and it is the only string that does. So the supplied values are
  in the fields, never a default, and outside the fields the two outputs are
  byte-identical.
\<close>

theorem fields_reflect_request:
  assumes "fresh_target full_path s"
  shows "read_file (os_path_join full_path [''docker-compose.yml''])
           (snd (generate_project module_file full_path template
                   mongodb_port http_port mongodb_user mongodb_pass server_api_key s)) =
         Inr (concat (splice docker_compose_frame
                [str_int mongodb_port, str_int mongodb_port,
                 str_int http_port, str_int http_port])) \<and>
         read_file (os_path_join full_path [''.env''])
           (snd (generate_project module_file full_path template
                   mongodb_port http_port mongodb_user mongodb_pass server_api_key s)) =
         Inr (concat (splice env_frame
                [mongodb_user, mongodb_pass, str_int mongodb_port,
                 mongodb_user, mongodb_pass, server_api_key])) \<and>
         read_file (os_path_join full_path [''docker-compose.yml''])
           (snd (generate_project module_file full_path template
                   mongodb_port' http_port' mongodb_user' mongodb_pass' server_api_key' s)) =
         Inr (concat (splice docker_compose_frame
                [str_int mongodb_port', str_int mongodb_port',
                 str_int http_port', str_int http_port'])) \<and>
         read_file (os_path_join full_path [''.env''])
           (snd (generate_project module_file full_path template
                   mongodb_port' http_port' mongodb_user' mongodb_pass' server_api_key' s)) =
         Inr (concat (splice env_frame
                [mongodb_user', mongodb_pass', str_int mongodb_port',
                 mongodb_user', mongodb_pass', server_api_key'])) \<and>
         decimal (str_int mongodb_port) = Some mongodb_port \<and>
         decimal (str_int http_port) = Some http_port \<and>
         decimal (str_int mongodb_port') = Some mongodb_port' \<and>
         decimal (str_int http_port') = Some http_port' \<and>
         (\<forall>field port. decimal field = Some port \<longrightarrow> field = str_int port)"
proof -
  have c: "docker_compose_contents a b =
      concat (splice docker_compose_frame [str_int a, str_int a, str_int b, str_int b])" for a b
    by (simp add: docker_compose_contents_def docker_compose_frame_def)
  have e: "env_contents a u p k = concat (splice env_frame [u, p, str_int a, u, p, k])" for a u p k
    by (simp add: env_contents_def env_frame_def)
  have u: "\<forall>field port. decimal field = Some port \<longrightarrow> field = str_int port"
    by (blast intro: decimal_unique)
  show ?thesis
    by (simp add: fresh_files [OF assms] c e decimal_str_int) (rule u)
qed

theorem fields_reflect_request_witness:
  "fresh_target ''/tmp/proj1'' example_state \<and>
   decimal ''27017'' = Some 27017 \<and> decimal ''8080'' = Some 8080 \<and>
   decimal ''27018'' = Some 27018 \<and> decimal ''9090'' = Some 9090 \<and>
   read_file (os_path_join ''/tmp/proj1'' [''docker-compose.yml''])
     (snd (generate_project ''/pkg/project.py'' ''/tmp/proj1'' ''t.py''
             27017 8080 ''admin'' ''p455w0rd'' ''sample-abcdef'' example_state)) =
     Inr (concat (splice docker_compose_frame [''27017'', ''27017'', ''8080'', ''8080''])) \<and>
   read_file (os_path_join ''/tmp/proj1'' [''.env''])
     (snd (generate_project ''/pkg/project.py'' ''/tmp/proj1'' ''t.py''
             27017 8080 ''admin'' ''p455w0rd'' ''sample-abcdef'' example_state)) =
     Inr (concat (splice env_frame
            [''admin'', ''p455w0rd'', ''27017'', ''admin'', ''p455w0rd'', ''sample-abcdef''])) \<and>
   read_file (os_path_join ''/tmp/proj1'' [''docker-compose.yml''])
     (snd (generate_project ''/pkg/project.py'' ''/tmp/proj1'' ''t.py''
             27018 9090 ''u'' ''p'' ''k1'' example_state)) =
     Inr (concat (splice docker_compose_frame [''27018'', ''27018'', ''9090'', ''9090''])) \<and>
   read_file (os_path_join ''/tmp/proj1'' [''.env''])
     (snd (generate_project ''/pkg/project.py'' ''/tmp/proj1'' ''t.py''
             27018 9090 ''u'' ''p'' ''k1'' example_state)) =
     Inr (concat (splice env_frame [''u'', ''p'', ''27018'', ''u'', ''p'', ''k1'']))"
proof -
  have f: "fresh_target ''/tmp/proj1'' example_state"
    by (simp add: fresh_target_def path_eval example_state_def)
  have d: "decimal ''27017'' = Some 27017" "decimal ''8080'' = Some 8080"
    "decimal ''27018'' = Some 27018" "decimal ''9090'' = Some 9090"
    by (simp_all add: decimal_def decimal_nat_def digit_value_def upt_rec)
  note t = fields_reflect_request [OF f, of "''/pkg/project.py''" "''t.py''"
      27017 8080 "''admin''" "''p455w0rd''" "''sample-abcdef''" 27018 9090 "''u''" "''p''" "''k1''"]
  from t have u: "\<And>field port. decimal field = Some port \<Longrightarrow> field = str_int port"
    by blast
  have n: "str_int 27017 = ''27017''" "str_int 8080 = ''8080''"
    "str_int 27018 = ''27018''" "str_int 9090 = ''9090''"
    using d [THEN u] by simp_all
  from t f d show ?thesis
    unfolding n by blast
qed

text \<open>
  Claim C8. Nothing is rolled back. When the run on a fresh target ends with an exception,
  it is the template that could not be read, and the five artifacts written before the
  copy are in the target directory with their contents. In general, when the run ends
  with an exception, some statement number \<open>n\<close> raised it after the \<open>n\<close> statements before
  it had succeeded, the file system is the one they produced with whatever the failing
  statement did to it on top, and every file they left is still there with its contents.
\<close>

theorem no_rollback:
  "(fresh_target full_path s \<and>
    fst (generate_project module_file full_path template
           mongodb_port http_port mongodb_user mongodb_pass server_api_key s) = Some e \<longrightarrow>
      read_file (template_path module_file template)
        (snd (generate_project module_file full_path template
                mongodb_port http_port mongodb_user mongodb_pass server_api_key s)) = Inl e \<and>
      os_stat full_path
        (snd (generate_project module_file full_path template
                mongodb_port http_port mongodb_user mongodb_pass server_api_key s)) =
        Inr (Dir [(''server'',
                   Dir [(''Dockerfile'', File dockerfile_contents),
                        (''requirements.txt'', File requirements_contents),
                        (''__init__.py'', File [])]),
                  (''docker-compose.yml'',
                   File (docker_compose_contents mongodb_port http_port)),
                  (''.env'',
                   File (env_contents mongodb_port mongodb_user mongodb_pass server_api_key))])) \<and>
   (generate_project module_file full_path template
      mongodb_port http_port mongodb_user mongodb_pass server_api_key s = (Some e, s') \<longrightarrow>
      (\<exists>n t. n < length (project_steps module_file full_path template
                        mongodb_port http_port mongodb_user mongodb_pass server_api_key) \<and>
         run_all (take n (project_steps module_file full_path template
                      mongodb_port http_port mongodb_user mongodb_pass server_api_key)) s =
           (None, t) \<and>
         (project_steps module_file full_path template
            mongodb_port http_port mongodb_user mongodb_pass server_api_key ! n) t =
           (Some e, s') \<and>
         (\<forall>q x. stat_node (root t) q = Inr (File x) \<longrightarrow>
                stat_node (root s') q = Inr (File x))))"
proof (intro conjI impI)
  assume a: "fresh_target full_path s \<and>
    fst (generate_project module_file full_path template
           mongodb_port http_port mongodb_user mongodb_pass server_api_key s) = Some e"
  from fresh_outcome [of full_path s module_file template
      mongodb_port http_port mongodb_user mongodb_pass server_api_key] a
  obtain t where "generate_project module_file full_path template
      mongodb_port http_port mongodb_user mongodb_pass server_api_key s = (Some e, t)"
    "os_stat full_path t =
       Inr (partial_tree mongodb_port http_port mongodb_user mongodb_pass server_api_key)"
    "read_file (template_path module_file template) t = Inl e"
    by auto
  then show "read_file (template_path module_file template)
        (snd (generate_project module_file full_path template
                mongodb_port http_port mongodb_user mongodb_pass server_api_key s)) = Inl e"
    and "os_stat full_path
        (snd (generate_project module_file full_path template
                mongodb_port http_port mongodb_user mongodb_pass server_api_key s)) =
        Inr (Dir [(''server'',
                   Dir [(''Dockerfile'', File dockerfile_contents),
                        (''requirements.txt'', File requirements_contents),
                        (''__init__.py'', File [])]),
                  (''docker-compose.yml'',
                   File (docker_compose_contents mongodb_port http_port)),
                  (''.env'',
                   File (env_contents mongodb_port mongodb_user mongodb_pass server_api_key))])"
    by (simp_all add: partial_tree_def server_tree_def)
next
  let ?steps = "project_steps module_file full_path template
                      mongodb_port http_port mongodb_user mongodb_pass server_api_key"
  assume "generate_project module_file full_path template
      mongodb_port http_port mongodb_user mongodb_pass server_api_key s = (Some e, s')"
  then have "run_all ?steps s = (Some e, s')" by (simp add: generate_project_def)
  from run_all_failure [OF this] obtain n t where n: "n < length ?steps"
    "run_all (take n ?steps) s = (None, t)" "(?steps ! n) t = (Some e, s')"
    by blast
  from n(1) have "?steps ! n \<in> set ?steps" by (rule nth_mem)
  from project_step_failure [OF this n(3)]
  have "\<forall>q x. stat_node (root t) q = Inr (File x) \<longrightarrow> stat_node (root s') q = Inr (File x)"
    by blast
  with n show "\<exists>n t. n < length ?steps \<and> run_all (take n ?steps) s = (None, t) \<and>
      (?steps ! n) t = (Some e, s') \<and>
      (\<forall>q x. stat_node (root t) q = Inr (File x) \<longrightarrow> stat_node (root s') q = Inr (File x))"
    by blast
qed

theorem no_rollback_witness:
  "fresh_target ''/tmp/proj1'' example_state \<and>
   fst (generate_project ''/pkg/project.py'' ''/tmp/proj1'' ''missing.py''
          27017 8080 ''admin'' ''p455w0rd'' ''sample-abcdef'' example_state) =
     Some FileNotFoundError \<and>
   read_file (template_path ''/pkg/project.py'' ''missing.py'')
     (snd (generate_project ''/pkg/project.py'' ''/tmp/proj1'' ''missing.py''
             27017 8080 ''admin'' ''p455w0rd'' ''sample-abcdef'' example_state)) =
     Inl FileNotFoundError \<and>
   os_stat ''/tmp/proj1''
     (snd (generate_project ''/pkg/project.py'' ''/tmp/proj1'' ''missing.py''
             27017 8080 ''admin'' ''p455w0rd'' ''sample-abcdef'' example_state)) =
     Inr (Dir [(''server'',
                Dir [(''Dockerfile'', File dockerfile_contents),
                     (''requirements.txt'', File requirements_contents),
                     (''__init__.py'', File [])]),
               (''docker-compose.yml'', File (docker_compose_contents 27017 8080)),
               (''.env'', File (env_contents 27017 ''admin'' ''p455w0rd'' ''sample-abcdef''))]) \<and>
   (\<exists>n t. n < length (project_steps ''/pkg/project.py'' ''/tmp/proj1'' ''missing.py''
                     27017 8080 ''admin'' ''p455w0rd'' ''sample-abcdef'') \<and>
      run_all (take n (project_steps ''/pkg/project.py'' ''/tmp/proj1'' ''missing.py''
                   27017 8080 ''admin'' ''p455w0rd'' ''sample-abcdef'')) example_state =
        (None, t) \<and>
      (project_steps ''/pkg/project.py'' ''/tmp/proj1'' ''missing.py''
         27017 8080 ''admin'' ''p455w0rd'' ''sample-abcdef'' ! n) t =
        (Some FileNotFoundError,
         snd (generate_project ''/pkg/project.py'' ''/tmp/proj1'' ''missing.py''
                27017 8080 ''admin'' ''p455w0rd'' ''sample-abcdef'' example_state)) \<and>
      (\<forall>q x. stat_node (root t) q = Inr (File x) \<longrightarrow>
             stat_node (root (snd (generate_project ''/pkg/project.py'' ''/tmp/proj1''
                ''missing.py'' 27017 8080 ''admin'' ''p455w0rd'' ''sample-abcdef''
                example_state))) q = Inr (File x)))"
proof -
  let ?g = "generate_project ''/pkg/project.py'' ''/tmp/proj1'' ''missing.py''
             27017 8080 ''admin'' ''p455w0rd'' ''sample-abcdef'' example_state"
  have f: "fresh_target ''/tmp/proj1'' example_state"
    by (simp add: fresh_target_def path_eval example_state_def)
  have e: "fst ?g = Some FileNotFoundError"
    by (simp add: run_eval example_state_def)
  then have g: "?g = (Some FileNotFoundError, snd ?g)"
    by (metis prod.collapse)
  from no_rollback [of "''/tmp/proj1''" example_state "''/pkg/project.py''" "''missing.py''"
      27017 8080 "''admin''" "''p455w0rd''" "''sample-abcdef''" FileNotFoundError "snd ?g"] f e g
  show ?thesis by blast
qed

text \<open>
  Claim C9, amended. When the user, the password and the API key contain no newline, the
  environment file written by \<^verbatim>\<open>_make_env_file\<close> gives \<^verbatim>\<open>MONGO_INITDB_ROOT_USERNAME\<close>
  and \<^verbatim>\<open>DB_USER\<close> the same value, the user of the request, and
  \<^verbatim>\<open>MONGO_INITDB_ROOT_PASSWORD\<close> and \<^verbatim>\<open>DB_PASS\<close> the same value, the password of the
  request.
\<close>

theorem credentials_duplicated:
  assumes "CHR ''\<newline>'' \<notin> set mongodb_user"
    and "CHR ''\<newline>'' \<notin> set mongodb_pass"
    and "CHR ''\<newline>'' \<notin> set server_api_key"
    and "make_env_file project_path mongodb_port mongodb_user mongodb_pass server_api_key s =
           (None, s')"
  shows "\<exists>env. read_file (os_path_join project_path [''.env'']) s' = Inr env \<and>
           env_value env ''MONGO_INITDB_ROOT_USERNAME'' = Some mongodb_user \<and>
           env_value env ''DB_USER'' = Some mongodb_user \<and>
           env_value env ''MONGO_INITDB_ROOT_PASSWORD'' = Some mongodb_pass \<and>
           env_value env ''DB_PASS'' = Some mongodb_pass"
proof -
  from assms(4) have "read_file (os_path_join project_path [''.env'']) s' =
      Inr (env_contents mongodb_port mongodb_user mongodb_pass server_api_key)"
    unfolding make_env_file_def by (rule write_file_ok [THEN conjunct1])
  with env_values_no_newline [OF assms(1-3), of mongodb_port] show ?thesis by simp
qed

theorem credentials_duplicated_witness:
  "CHR ''\<newline>'' \<notin> set ''admin'' \<and> CHR ''\<newline>'' \<notin> set ''p455w0rd'' \<and>
   CHR ''\<newline>'' \<notin> set ''sample-abcdef'' \<and>
   fst (make_env_file ''/tmp'' 27017 ''admin'' ''p455w0rd'' ''sample-abcdef'' example_state) = None \<and>
   (\<exists>env. read_file (os_path_join ''/tmp'' [''.env''])
            (snd (make_env_file ''/tmp'' 27017 ''admin'' ''p455w0rd'' ''sample-abcdef''
                    example_state)) = Inr env \<and>
          env_value env ''MONGO_INITDB_ROOT_USERNAME'' = Some ''admin'' \<and>
          env_value env ''DB_USER'' = Some ''admin'' \<and>
          env_value env ''MONGO_INITDB_ROOT_PASSWORD'' = Some ''p455w0rd'' \<and>
          env_value env ''DB_PASS'' = Some ''p455w0rd'')"
proof -
  have n: "CHR ''\<newline>'' \<notin> set ''admin''" "CHR ''\<newline>'' \<notin> set ''p455w0rd''"
    "CHR ''\<newline>'' \<notin> set ''sample-abcdef''"
    by simp_all
  have ok: "fst (make_env_file ''/tmp'' 27017 ''admin'' ''p455w0rd'' ''sample-abcdef''
      example_state) = None"
    by (simp add: write_eval example_state_def)
  then have m: "make_env_file ''/tmp'' 27017 ''admin'' ''p455w0rd'' ''sample-abcdef'' example_state =
      (None, snd (make_env_file ''/tmp'' 27017 ''admin'' ''p455w0rd'' ''sample-abcdef''
                    example_state))"
    by (metis prod.collapse)
  from credentials_duplicated [OF n m] n ok show ?thesis by blast
qed

text \<open>
  The values are inserted verbatim, so the claim does not hold for every choice of
  parameters: a user name that carries a line of its own makes the two keys differ, whether
  the first or the last line for a key is the one that counts.
\<close>

theorem injected_line_counterexample:
  "fst (make_env_file ''/tmp'' 27017 ''x\<newline>DB_USER=y'' ''p'' ''k'' example_state) = None \<and>
   read_file ''/tmp/.env''
     (snd (make_env_file ''/tmp'' 27017 ''x\<newline>DB_USER=y'' ''p'' ''k'' example_state)) =
     Inr (env_contents 27017 ''x\<newline>DB_USER=y'' ''p'' ''k'') \<and>
   env_value (env_contents 27017 ''x\<newline>DB_USER=y'' ''p'' ''k'')
     ''MONGO_INITDB_ROOT_USERNAME'' = Some ''x'' \<and>
   env_value (env_contents 27017 ''x\<newline>DB_USER=y'' ''p'' ''k'') ''DB_USER'' = Some ''y'' \<and>
   map_of (env_entries (env_contents 27017 ''x\<newline>DB_USER=y'' ''p'' ''k''))
     ''MONGO_INITDB_ROOT_USERNAME'' = Some ''x'' \<and>
   map_of (env_entries (env_contents 27017 ''x\<newline>DB_USER=y'' ''p'' ''k'')) ''DB_USER'' =
     Some ''y''"
proof -
  have l: "lines_of (env_contents 27017 ''x\<newline>DB_USER=y'' ''p'' ''k'') =
      [''MONGO_INITDB_ROOT_USERNAME=x'', ''DB_USER=y'', ''MONGO_INITDB_ROOT_PASSWORD=p'',
       ''DB_HOST=mongodb'', ''DB_PORT=27017'', ''DB_USER=x'', ''DB_USER=y'', ''DB_PASS=p'',
       ''SERVER_API_KEY=k'', ''WAITRESS_PORT=8080'', ''MODULE_NAME=app'', ''VARIABLE_NAME=app'',
       []]"
    by (simp add: env_contents_def text_eval)
  have v: "env_value (env_contents 27017 ''x\<newline>DB_USER=y'' ''p'' ''k'')
       ''MONGO_INITDB_ROOT_USERNAME'' = Some ''x''"
    "env_value (env_contents 27017 ''x\<newline>DB_USER=y'' ''p'' ''k'') ''DB_USER'' = Some ''y''"
    "map_of (env_entries (env_contents 27017 ''x\<newline>DB_USER=y'' ''p'' ''k''))
       ''MONGO_INITDB_ROOT_USERNAME'' = Some ''x''"
    "map_of (env_entries (env_contents 27017 ''x\<newline>DB_USER=y'' ''p'' ''k'')) ''DB_USER'' =
       Some ''y''"
    by (simp_all add: env_value_def env_entries_def l env_entry_def List.map_filter_simps)
  have w: "fst (make_env_file ''/tmp'' 27017 ''x\<newline>DB_USER=y'' ''p'' ''k'' example_state) = None"
    "read_file ''/tmp/.env''
       (snd (make_env_file ''/tmp'' 27017 ''x\<newline>DB_USER=y'' ''p'' ''k'' example_state)) =
     Inr (env_contents 27017 ''x\<newline>DB_USER=y'' ''p'' ''k'')"
    by (simp_all add: write_eval example_state_def)
  from v w show ?thesis by simp
qed

text \<open>
  Claim C10. When the target path names an existing regular file, the run fails in its
  first statement, the creation of the directory, with \<^verbatim>\<open>FileExistsError\<close>: before the
  emptiness check and before any write, and the file system is unchanged.
\<close>

theorem target_is_a_file:
  assumes "os_stat full_path s = Inr (File b)"
  shows "generate_project module_file full_path template
           mongodb_port http_port mongodb_user mongodb_pass server_api_key s =
         (Some FileExistsError, s) \<and>
         os_makedirs full_path s = (Some FileExistsError, s)"
proof -
  from assms obtain p where p: "resolve (root s) (cwd s) full_path = Inr p"
    and "stat_node (root s) p = Inr (File b)"
    by (auto simp: os_stat_def split: sum.splits)
  then have "os_makedirs full_path s = (Some FileExistsError, s)"
    by (simp add: os_makedirs_resolved [OF p] mkdirs_existing_file)
  then show ?thesis
    by (simp add: generate_project_def project_steps_def)
qed

theorem target_is_a_file_witness:
  "os_stat ''t.py'' example_state = Inr (File ''print(1)'') \<and>
   generate_project ''/pkg/project.py'' ''t.py'' ''t.py'' 27017 8080 ''admin'' ''p455w0rd''
       ''sample-abcdef'' example_state =
     (Some FileExistsError, example_state)"
proof -
  have f: "os_stat ''t.py'' example_state = Inr (File ''print(1)'')"
    by (simp add: path_eval example_state_def)
  show ?thesis
    using f target_is_a_file [OF f] by simp
qed

end
